theory Spec2Isabelle
  imports Main "HOL-Library.AList"
begin

section \<open>The browser channel HTTP handler (browserchannel/handler.go)\<close>

text \<open>
  A shallow embedding of the request dispatcher of the browser channel server.
  The handler is modelled sequentially, one request at a time: every method of
  \<^verbatim>\<open>*Handler\<close> takes the world as it is when the request arrives and returns the world
  as the request leaves it. The world holds the fields of the \<^verbatim>\<open>Handler\<close> struct, the
  \<^verbatim>\<open>http.ResponseWriter\<close> of the request and the list of calls the handler has made on its
  collaborators, in program order.

  Only handler.go is available. The functions it calls that live in other files of the
  package (the session id parser and generator, the body and map decoders, the methods
  of \<^verbatim>\<open>Channel\<close> and of the back channel, the markup writers) are parameters of the
  model, collected in the record \<open>env\<close>; the few facts about them that the handler's
  own text relies on are modelled from the specification and marked as such.
\<close>

subsection \<open>Go library functions used by the handler\<close>

datatype error = Error string

text \<open>\<^verbatim>\<open>strings.HasSuffix\<close>.\<close>

definition HasSuffix :: "string \<Rightarrow> string \<Rightarrow> bool" where
  "HasSuffix s suffix =
     (length suffix \<le> length s \<and> drop (length s - length suffix) s = suffix)"

text \<open>
  \<^verbatim>\<open>strconv.Atoi\<close>: an optional sign, then one or more decimal digits; a value outside
  the range of \<^verbatim>\<open>int\<close> (64 bits) is an error.
\<close>

definition isDigit :: "char \<Rightarrow> bool" where
  "isDigit c = (c \<in> set ''0123456789'')"

definition digitVal :: "char \<Rightarrow> int" where
  "digitVal c = int (of_char c) - 48"

definition digitsVal :: "string \<Rightarrow> int" where
  "digitsVal ds = foldl (\<lambda>n c. 10 * n + digitVal c) 0 ds"

definition Atoi :: "string \<Rightarrow> error + int" where
  "Atoi s =
     (let neg = (s \<noteq> [] \<and> hd s = CHR ''-'');
          ds = (if s \<noteq> [] \<and> (hd s = CHR ''-'' \<or> hd s = CHR ''+'') then tl s else s)
      in if ds = [] \<or> \<not> list_all isDigit ds then Inl (Error ''invalid syntax'')
         else let v = (if neg then - digitsVal ds else digitsVal ds)
              in if v < - (2 ^ 63) \<or> 2 ^ 63 - 1 < v then Inl (Error ''value out of range'')
                 else Inr v)"

text \<open>\<^verbatim>\<open>strconv.FormatInt(n, 10)\<close> for the non-negative numbers the handler formats.\<close>

definition digitChar :: "nat \<Rightarrow> char" where
  "digitChar d = ''0123456789'' ! d"

function FormatInt :: "nat \<Rightarrow> string" where
  "FormatInt n = (if n < 10 then [digitChar n] else FormatInt (n div 10) @ [digitChar (n mod 10)])"
  by pat_completeness auto
termination
  by (relation "measure id") auto

declare FormatInt.simps [simp del]

text \<open>
  \<^verbatim>\<open>url.Values\<close> and its \<^verbatim>\<open>Get\<close>: the first value stored under the key, the empty string
  when there is none.
\<close>

type_synonym Values = "(string \<times> string list) list"

definition Get :: "Values \<Rightarrow> string \<Rightarrow> string" where
  "Get vs key = (case map_of vs key of None \<Rightarrow> [] | Some [] \<Rightarrow> [] | Some (v # _) \<Rightarrow> v)"

text \<open>
  \<^verbatim>\<open>http.ResponseWriter\<close>. \<open>status\<close> is \<open>None\<close> until the header has been written;
  a second \<^verbatim>\<open>WriteHeader\<close> is ignored, and a \<^verbatim>\<open>Write\<close> or \<^verbatim>\<open>Flush\<close> before any
  \<^verbatim>\<open>WriteHeader\<close> writes the header with status 200 first. A handler that returns without
  having written anything is answered with status 200 and an empty body
  (\<open>statusCode\<close>).
\<close>

record ResponseWriter =
  header :: "(string \<times> string) list"
  status :: "nat option"
  body :: string
  flushed :: bool

definition newResponseWriter :: ResponseWriter where
  "newResponseWriter = \<lparr>header = [], status = None, body = [], flushed = False\<rparr>"

definition HeaderSet :: "ResponseWriter \<Rightarrow> string \<Rightarrow> string \<Rightarrow> ResponseWriter" where
  "HeaderSet rw k v = rw\<lparr>header := AList.update k v (header rw)\<rparr>"

definition WriteHeader :: "ResponseWriter \<Rightarrow> nat \<Rightarrow> ResponseWriter" where
  "WriteHeader rw code = (if status rw = None then rw\<lparr>status := Some code\<rparr> else rw)"

definition Write :: "ResponseWriter \<Rightarrow> string \<Rightarrow> ResponseWriter" where
  "Write rw s = (let rw1 = WriteHeader rw 200 in rw1\<lparr>body := body rw1 @ s\<rparr>)"

definition WriteString :: "ResponseWriter \<Rightarrow> string \<Rightarrow> ResponseWriter" where
  "WriteString rw s = Write rw s"

definition Flush :: "ResponseWriter \<Rightarrow> ResponseWriter" where
  "Flush rw = (WriteHeader rw 200)\<lparr>flushed := True\<rparr>"

definition statusCode :: "ResponseWriter \<Rightarrow> nat" where
  "statusCode rw = (case status rw of None \<Rightarrow> 200 | Some c \<Rightarrow> c)"

text \<open>
  \<^verbatim>\<open>rand.Intn(n)\<close>: panics when \<open>n \<le> 0\<close>, otherwise a number below \<open>n\<close>. The number
  drawn is an input of the model (\<open>r\<close>), reduced into the range.
\<close>

datatype panic = IntnInvalidArgument

definition Intn :: "nat \<Rightarrow> nat \<Rightarrow> panic + nat" where
  "Intn r n = (if n = 0 then Inl IntnInvalidArgument else Inr (r mod n))"

subsection \<open>Query parameters\<close>

definition SupportedProcolVersion :: int where
  "SupportedProcolVersion = 8"

definition DefaultBindPath :: string where
  "DefaultBindPath = ''bind''"

definition DefaultTestPath :: string where
  "DefaultTestPath = ''test''"

datatype queryType = queryUnset | queryTerminate | queryXmlHttp | queryHtml | queryTest

definition parseQueryType :: "string \<Rightarrow> queryType" where
  "parseQueryType s =
     (if s = ''html'' then queryHtml
      else if s = ''xmlhttp'' then queryXmlHttp
      else if s = ''terminate'' then queryTerminate
      else if s = ''test'' then queryTest
      else queryUnset)"

definition setContentType :: "queryType \<Rightarrow> ResponseWriter \<Rightarrow> ResponseWriter" where
  "setContentType qt rw =
     (if qt = queryHtml then HeaderSet rw ''Content-Type'' ''text/html''
      else HeaderSet rw ''Content-Type'' ''text/plain'')"

definition parseAid :: "string \<Rightarrow> error + int" where
  "parseAid s = (if length s = 0 then Inr (- 1) else Atoi s)"

definition parseProtoVersion :: "string \<Rightarrow> int" where
  "parseProtoVersion s = (case Atoi s of Inl err \<Rightarrow> - 1 | Inr version \<Rightarrow> version)"

text \<open>
  Modelled from the spec: the type \<^verbatim>\<open>SessionId\<close> and the constant \<^verbatim>\<open>nullSessionId\<close> are
  declared outside handler.go. A session id is the base-16 text of 128 random bits, and
  the null value (absent or empty input) is a distinct sentinel meaning that there is no
  session yet.
\<close>

type_synonym SessionId = string

definition nullSessionId :: SessionId where
  "nullSessionId = []"

subsection \<open>Parameters of the two endpoints\<close>

text \<open>
  An incoming request, as far as the handler reads it: \<open>Origin\<close> is
  \<^verbatim>\<open>req.Header.Get("origin")\<close>, \<open>Body\<close> the bytes of \<^verbatim>\<open>req.Body\<close> and \<open>Form\<close> what
  \<^verbatim>\<open>req.ParseForm()\<close> leaves in \<^verbatim>\<open>req.Form\<close>.
\<close>

record Request =
  Method :: string
  Path :: string
  Origin :: string
  Body :: string
  Form :: Values

record bindParams =
  cver :: string
  sid :: SessionId
  qtype :: queryType
  domain :: string
  rid :: string
  aid :: int
  chunked :: bool
  bvalues :: Values
  "method" :: string

text \<open>
  The fields of \<^verbatim>\<open>testParams\<close>; \<open>tqtype\<close> and \<open>tdomain\<close> are its \<^verbatim>\<open>qtype\<close> and
  \<^verbatim>\<open>domain\<close>, and \<open>bvalues\<close> above is the \<^verbatim>\<open>values\<close> of \<^verbatim>\<open>bindParams\<close>.
\<close>

record testParams =
  ver :: int
  init :: bool
  tqtype :: queryType
  tdomain :: string

definition parseTestParams :: "Request \<Rightarrow> testParams" where
  "parseTestParams req =
     \<lparr>ver = parseProtoVersion (Get (Form req) ''VER''),
      init = (Get (Form req) ''MODE'' = ''init''),
      tqtype = parseQueryType (Get (Form req) ''TYPE''),
      tdomain = Get (Form req) ''DOMAIN''\<rparr>"

definition headers :: "(string \<times> string) list" where
  "headers =
     [(''Cache-Control'', ''no-cache, no-store, max-age=0, must-revalidate''),
      (''Expires'', ''Fri, 01 Jan 1990 00:00:00 GMT''),
      (''X-Content-Type-Options'', ''nosniff''),
      (''Transfer-Encoding'', ''chunked''),
      (''Pragma'', ''no-cache'')]"

text \<open>
  Modelled from the spec: \<^verbatim>\<open>setHeaders\<close> is defined outside handler.go. Every response
  that uses the table sets each of its entries on the response.
\<close>

definition setHeaders :: "ResponseWriter \<Rightarrow> (string \<times> string) list \<Rightarrow> ResponseWriter" where
  "setHeaders w hs = foldl (\<lambda>r kv. HeaderSet r (fst kv) (snd kv)) w hs"

subsection \<open>The channel map\<close>

definition channelMap_get :: "(SessionId \<rightharpoonup> 'c) \<Rightarrow> SessionId \<Rightarrow> 'c option" where
  "channelMap_get m s = m s"

definition channelMap_set :: "(SessionId \<rightharpoonup> 'c) \<Rightarrow> SessionId \<Rightarrow> 'c \<Rightarrow> (SessionId \<rightharpoonup> 'c)" where
  "channelMap_set m s c = m(s \<mapsto> c)"

text \<open>
  The methods \<^verbatim>\<open>get\<close>, \<^verbatim>\<open>set\<close> and \<^verbatim>\<open>del\<close> of \<^verbatim>\<open>channelMap\<close>. An absent key is
  \<open>None\<close>, which is the \<^verbatim>\<open>nil\<close> that \<^verbatim>\<open>get\<close> returns; the handler never stores a
  \<^verbatim>\<open>nil\<close> channel. \<open>channelMap_del\<close> returns \<^verbatim>\<open>deleted\<close> and the map after the call.
\<close>

definition channelMap_del :: "(SessionId \<rightharpoonup> 'c) \<Rightarrow> SessionId \<Rightarrow> bool \<times> (SessionId \<rightharpoonup> 'c)" where
  "channelMap_del m s = (m s \<noteq> None, m(s := None))"

subsection \<open>Cross domain information\<close>

text \<open>
  \<open>hostMatcher\<close> is the \<^verbatim>\<open>MatchString\<close> of the compiled origin expression and
  \<open>cdomain\<close> the field \<^verbatim>\<open>domain\<close>.
\<close>

record crossDomainInfo =
  hostMatcher :: "string \<Rightarrow> bool"
  cdomain :: string
  prefixes :: "string list"

definition getHostPrefix :: "crossDomainInfo option \<Rightarrow> nat \<Rightarrow> panic + string" where
  "getHostPrefix info r =
     (case info of
        Some i \<Rightarrow>
          (case Intn r (length (prefixes i)) of
             Inl p \<Rightarrow> Inl p
           | Inr k \<Rightarrow> Inr (prefixes i ! k))
      | None \<Rightarrow> Inr [])"

text \<open>
  Modelled from the spec: the cross domain configuration is set from outside handler.go,
  with a non-empty list of host prefixes, and a host prefix is a DNS label, a non-empty
  word of letters, digits and hyphens. \<open>crossDomainConfig\<close> says that the handler has
  no cross domain information or has one that was set in this way.
\<close>

definition labelChar :: "char \<Rightarrow> bool" where
  "labelChar c =
     (c \<in> set ''abcdefghijklmnopqrstuvwxyzABCDEFGHIJKLMNOPQRSTUVWXYZ0123456789-'')"

definition hostPrefix :: "string \<Rightarrow> bool" where
  "hostPrefix p = (p \<noteq> [] \<and> list_all labelChar p)"

definition crossDomainConfig :: "crossDomainInfo option \<Rightarrow> bool" where
  "crossDomainConfig info =
     (case info of
        None \<Rightarrow> True
      | Some i \<Rightarrow> prefixes i \<noteq> [] \<and> list_all hostPrefix (prefixes i))"

subsection \<open>Channels and back channels\<close>

text \<open>
  Modelled from the spec: the struct \<^verbatim>\<open>Channel\<close> is declared outside handler.go. The
  handler reads its fields \<^verbatim>\<open>Sid\<close> and \<^verbatim>\<open>state\<close>; the states are Init, Ready and Closed.
  Everything else a channel holds (queue, offsets, timers, back channel slot) is the
  component \<open>internals\<close>, of a type the model leaves open.
\<close>

datatype channelState = channelInit | channelReady | channelClosed

record 'q Channel =
  Sid :: SessionId
  state :: channelState
  internals :: 'q

text \<open>
  Modelled from the spec: the back channel is declared outside handler.go. It is bound to
  the response it was created on (\<open>bcRw\<close>) and carries the owning session id, the
  markup flag, the domain, the request id and the chunked flag. A new back channel is
  not chunked until \<^verbatim>\<open>setChunked\<close> says so.
\<close>

record BackChannel =
  bcSid :: SessionId
  bcRw :: ResponseWriter
  isHtml :: bool
  bcDomain :: string
  bcRid :: string
  bcChunked :: bool

definition newBackChannel ::
  "SessionId \<Rightarrow> ResponseWriter \<Rightarrow> bool \<Rightarrow> string \<Rightarrow> string \<Rightarrow> BackChannel" where
  "newBackChannel s w html d r =
     \<lparr>bcSid = s, bcRw = w, isHtml = html, bcDomain = d, bcRid = r, bcChunked = False\<rparr>"

definition setChunked :: "BackChannel \<Rightarrow> bool \<Rightarrow> BackChannel" where
  "setChunked bc b = bc\<lparr>bcChunked := b\<rparr>"

type_synonym IncomingMap = "(string \<times> string) list"

text \<open>
  The calls the handler makes on its collaborators and on the channel map, in program
  order. A channel is named by the key under which the channel map holds it.
\<close>

datatype call =
    LogPrintf string
  | NewChannel string SessionId
  | ChannelsSet SessionId
  | ChannelsDel SessionId bool
  | ArmChannelTimeout SessionId
  | GoChanHandler SessionId
  | AcknowledgeArrays SessionId int
  | ReceiveMaps SessionId int "IncomingMap list"
  | GetState SessionId
  | SetBackChannel SessionId BackChannel
  | Wait SessionId
  | Terminate SessionId
  | Sleep nat

text \<open>
  The functions of the package that handler.go calls and that are defined in its other
  files, together with the two random draws of a request: \<open>generateSesionId\<close> is the
  id returned by \<^verbatim>\<open>generateSesionId(crand.Reader)\<close> (the handler ignores its error) and
  \<open>randDraw\<close> the number behind \<^verbatim>\<open>rand.Intn\<close>. \<open>getState\<close> is the JSON text that
  \<^verbatim>\<open>json.Marshal(channel.getState())\<close> yields. The methods that change a channel or a
  back channel return the changed object.
\<close>

record 'q env =
  parseBody :: "string \<Rightarrow> error + Values"
  parseSessionId :: "string \<Rightarrow> error + SessionId"
  parseIncomingMaps :: "Values \<Rightarrow> error + int \<times> IncomingMap list"
  makeOriginMatcher :: "string \<Rightarrow> string \<Rightarrow> bool"
  generateSesionId :: SessionId
  randDraw :: nat
  newInternals :: "string \<Rightarrow> crossDomainInfo option \<Rightarrow> 'q"
  armChannelTimeout :: "'q Channel \<Rightarrow> 'q Channel"
  acknowledgeArrays :: "'q Channel \<Rightarrow> int \<Rightarrow> 'q Channel"
  receiveMaps :: "'q Channel \<Rightarrow> int \<Rightarrow> IncomingMap list \<Rightarrow> error option \<times> 'q Channel"
  getState :: "'q Channel \<Rightarrow> string"
  setBackChannel :: "'q Channel \<Rightarrow> BackChannel \<Rightarrow> 'q Channel \<times> BackChannel"
  wait :: "BackChannel \<Rightarrow> BackChannel"
  terminate :: "'q Channel \<Rightarrow> 'q Channel"
  writeHtmlHead :: "ResponseWriter \<Rightarrow> ResponseWriter"
  writeHtmlDomain :: "ResponseWriter \<Rightarrow> string \<Rightarrow> ResponseWriter"
  writeHtmlRpc :: "ResponseWriter \<Rightarrow> string \<Rightarrow> ResponseWriter"
  writeHtmlPadding :: "ResponseWriter \<Rightarrow> ResponseWriter"
  writeHtmlDone :: "ResponseWriter \<Rightarrow> ResponseWriter"

text \<open>
  Modelled from the spec: \<^verbatim>\<open>newChannel\<close> is defined outside handler.go. A channel is
  created in the Init state with the session id it is given.
\<close>

definition newChannel ::
  "'q env \<Rightarrow> string \<Rightarrow> SessionId \<Rightarrow> crossDomainInfo option \<Rightarrow> 'q Channel" where
  "newChannel env v s cors = \<lparr>Sid = s, state = channelInit, internals = newInternals env v cors\<rparr>"

definition parseBindParams :: "'q env \<Rightarrow> Request \<Rightarrow> Values \<Rightarrow> error + bindParams" where
  "parseBindParams env req vals =
     (case parseSessionId env (Get (Form req) ''SID'') of
        Inl err \<Rightarrow> Inl err
      | Inr s \<Rightarrow>
          (case parseAid (Get (Form req) ''AID'') of
             Inl err \<Rightarrow> Inl err
           | Inr a \<Rightarrow>
               Inr \<lparr>cver = Get (Form req) ''VER'',
                    sid = s,
                    qtype = parseQueryType (Get (Form req) ''TYPE''),
                    domain = Get (Form req) ''DOMAIN'',
                    rid = Get (Form req) ''zx'',
                    aid = a,
                    chunked = (Get (Form req) ''CI'' = ''0''),
                    bvalues = vals, method = Method req\<rparr>))"

subsection \<open>The handler\<close>

text \<open>
  \<open>corsInfo\<close>, \<open>channels\<close>, \<open>bindPath\<close> and \<open>testPath\<close> are the fields of the
  \<^verbatim>\<open>Handler\<close>; \<open>rw\<close> is the response of the request being served and \<open>calls\<close> the
  calls made so far. The channel map holds the channels themselves: where the Go code
  changes a channel through its pointer, the model writes the changed channel back
  under the key the pointer came from.
\<close>

record 'q world =
  corsInfo :: "crossDomainInfo option"
  channels :: "SessionId \<rightharpoonup> 'q Channel"
  bindPath :: string
  testPath :: string
  rw :: ResponseWriter
  calls :: "call list"

definition SetCrossDomainPrefix :: "'q env \<Rightarrow> 'q world \<Rightarrow> string \<Rightarrow> string list \<Rightarrow> 'q world" where
  "SetCrossDomainPrefix env w d ps =
     w\<lparr>corsInfo := Some \<lparr>hostMatcher = makeOriginMatcher env d, cdomain = d, prefixes = ps\<rparr>\<rparr>"

text \<open>
  The loop of \<^verbatim>\<open>removeClosedSession\<close>, run on the session ids it receives from
  \<^verbatim>\<open>gcChan\<close> until the channel is closed.
\<close>

fun removeClosedSession :: "'q world \<Rightarrow> SessionId list \<Rightarrow> 'q world" where
  "removeClosedSession w [] = w"
| "removeClosedSession w (s # rest) =
     (let d = channelMap_del (channels w) s;
          w1 = w\<lparr>channels := snd d,
                 calls := calls w
                   @ [LogPrintf (''removing '' @ s @ '' from session map\<newline>''),
                      ChannelsDel s (fst d)]
                   @ (if \<not> fst d
                      then [LogPrintf (''missing channel for '' @ s @ '' in session map\<newline>'')]
                      else [])\<rparr>
      in removeClosedSession w1 rest)"

text \<open>
  \<^verbatim>\<open>handleTestRequest\<close>. The status line of the init answer is written before the host
  prefix is computed, so a panic of \<open>getHostPrefix\<close> leaves the world with the header
  written and no body.
\<close>

definition handleTestRequest ::
  "'q env \<Rightarrow> 'q world \<Rightarrow> testParams \<Rightarrow> (panic \<times> 'q world) + 'q world" where
  "handleTestRequest env w params =
     (if ver params \<noteq> SupportedProcolVersion then
        Inr (w\<lparr>rw := WriteString (WriteHeader (rw w) 400) ''Unsupported protocol version.''\<rparr>)
      else if init params then
        (let w1 = w\<lparr>rw := WriteHeader (rw w) 200\<rparr>
         in case getHostPrefix (corsInfo w) (randDraw env) of
              Inl p \<Rightarrow> Inl (p, w1)
            | Inr pre \<Rightarrow> Inr (w1\<lparr>rw := WriteString (rw w1) (''[\"'' @ pre @ ''\",\"\"]'')\<rparr>))
      else
        (let r1 = WriteHeader (setHeaders (setContentType (tqtype params) (rw w)) headers) 200;
             r2 = (if tqtype params = queryHtml
                   then writeHtmlPadding env
                          (writeHtmlRpc env
                             (writeHtmlDomain env (writeHtmlHead env r1) (tdomain params))
                             ''11111'')
                   else WriteString r1 ''11111'');
             r3 = Flush r2;
             r4 = (if tqtype params = queryHtml
                   then writeHtmlDone env (writeHtmlRpc env r3 ''2'')
                   else WriteString r3 ''2'')
         in Inr (w\<lparr>rw := r4, calls := calls w @ [Sleep 2]\<rparr>)))"

text \<open>
  \<^verbatim>\<open>handleBindPost\<close> and \<^verbatim>\<open>handleBindGet\<close>. The argument \<open>key\<close> is the key under
  which the channel map holds the channel the pointer \<^verbatim>\<open>channel\<close> refers to, and
  \<open>ch\<close> is that channel as it is when the function is entered. While the handler waits
  on a back channel the response belongs to the back channel; the response of the world
  afterwards is the one the back channel holds when \<^verbatim>\<open>wait\<close> returns.
\<close>

definition handleBindPost ::
  "'q env \<Rightarrow> 'q world \<Rightarrow> bindParams \<Rightarrow> SessionId \<Rightarrow> 'q Channel \<Rightarrow> 'q world" where
  "handleBindPost env w params key ch =
     (case parseIncomingMaps env (bvalues params) of
        Inl err \<Rightarrow> w\<lparr>rw := WriteHeader (rw w) 400\<rparr>
      | Inr (offset, maps) \<Rightarrow>
          (let res = receiveMaps env ch offset maps;
               ch1 = snd res;
               w1 = w\<lparr>channels := (channels w)(key \<mapsto> ch1),
                      calls := calls w @ [ReceiveMaps key offset maps]\<rparr>
           in case fst res of
                Some (Error msg) \<Rightarrow>
                  w1\<lparr>rw := WriteHeader (rw w1) 500,
                     calls := calls w1 @ [LogPrintf (Sid ch1 @ '': '' @ msg @ ''\<newline>'')]\<rparr>
              | None \<Rightarrow>
                  if state ch1 = channelInit then
                    (let r1 = Flush (WriteHeader (setHeaders (rw w1) headers) 200);
                         backChannel = newBackChannel (Sid ch1) r1 False [] (rid params);
                         installed = setBackChannel env ch1 backChannel;
                         finished = wait env (snd installed)
                     in w1\<lparr>channels := (channels w1)(key \<mapsto> fst installed),
                            rw := bcRw finished,
                            calls := calls w1 @ [SetBackChannel key backChannel, Wait key]\<rparr>)
                  else
                    (let b = getState env ch1;
                         r1 = WriteHeader (setHeaders (rw w1) headers) 200;
                         r2 = WriteString r1 (FormatInt (length b) @ ''\<newline>'');
                         r3 = Write r2 b
                     in w1\<lparr>rw := r3, calls := calls w1 @ [GetState key]\<rparr>)))"

definition handleBindGet ::
  "'q env \<Rightarrow> 'q world \<Rightarrow> bindParams \<Rightarrow> SessionId \<Rightarrow> 'q Channel \<Rightarrow> 'q world" where
  "handleBindGet env w params key ch =
     (if qtype params = queryTerminate then
        w\<lparr>channels := (channels w)(key \<mapsto> terminate env ch),
          calls := calls w @ [Terminate key]\<rparr>
      else
        (let r1 = Flush (WriteHeader (setHeaders (setContentType (qtype params) (rw w)) headers) 200);
             html = (qtype params = queryHtml);
             bc = setChunked (newBackChannel (Sid ch) r1 html (domain params) (rid params))
                    (chunked params);
             installed = setBackChannel env ch bc;
             finished = wait env (snd installed)
         in w\<lparr>channels := (channels w)(key \<mapsto> fst installed),
               rw := bcRw finished,
               calls := calls w @ [SetBackChannel key bc, Wait key]\<rparr>))"

text \<open>
  A channel that is changed through its pointer changes in the channel map exactly when
  the map holds it: \<open>channelChanged m k c\<close> is the map \<open>m\<close> after the channel it
  holds under \<open>k\<close> has become \<open>c\<close>, and is \<open>m\<close> itself when \<open>m\<close> holds nothing
  under \<open>k\<close>. So it is \<^verbatim>\<open>channels.set\<close>, and nothing else, that puts a new channel into the
  map.
\<close>

definition channelChanged ::
  "(SessionId \<rightharpoonup> 'c) \<Rightarrow> SessionId \<Rightarrow> 'c \<Rightarrow> (SessionId \<rightharpoonup> 'c)" where
  "channelChanged m k c = (if m k = None then m else m(k \<mapsto> c))"

text \<open>
  \<^verbatim>\<open>handleBindRequest\<close>: the lookup of a given session id, the creation of a session
  when there is no channel yet, the acknowledgement, and the switch on the method.
\<close>

definition handleBindRequest :: "'q env \<Rightarrow> 'q world \<Rightarrow> bindParams \<Rightarrow> 'q world" where
  "handleBindRequest env w params =
     (let found = (if sid params \<noteq> nullSessionId
                   then channelMap_get (channels w) (sid params) else None)
      in if sid params \<noteq> nullSessionId \<and> found = None then
           w\<lparr>rw := WriteString (WriteHeader (setHeaders (rw w) headers) 400) ''Unknown SID'',
             calls := calls w
               @ [LogPrintf (''failed to lookup session '' @ sid params @ ''\<newline>'')]\<rparr>
         else
           (let resolved =
                  (case found of
                     Some ch \<Rightarrow> (sid params, ch, w)
                   | None \<Rightarrow>
                       (let s = generateSesionId env;
                            ch0 = newChannel env (cver params) s (corsInfo w);
                            ch1 = armChannelTimeout env ch0
                        in (s, ch1,
                            w\<lparr>channels :=
                                channelChanged (channelMap_set (channels w) s ch0) s ch1,
                              calls := calls w
                                @ [LogPrintf (''creating session '' @ s @ ''\<newline>''),
                                   NewChannel (cver params) s,
                                   ChannelsSet s,
                                   ArmChannelTimeout s,
                                   GoChanHandler s]\<rparr>)));
                key = fst resolved;
                ch = fst (snd resolved);
                w1 = snd (snd resolved);
                ch2 = (if aid params \<noteq> - 1 then acknowledgeArrays env ch (aid params) else ch);
                w2 = (if aid params \<noteq> - 1
                      then w1\<lparr>channels := channelChanged (channels w1) key ch2,
                              calls := calls w1 @ [AcknowledgeArrays key (aid params)]\<rparr>
                      else w1)
            in if method params = ''POST'' then handleBindPost env w2 params key ch2
               else if method params = ''GET'' then handleBindGet env w2 params key ch2
               else w2\<lparr>rw := WriteHeader (rw w2) 400\<rparr>))"

text \<open>\<^verbatim>\<open>ServeHTTP\<close>, the entry point.\<close>

definition ServeHTTP ::
  "'q env \<Rightarrow> 'q world \<Rightarrow> Request \<Rightarrow> (panic \<times> 'q world) + 'q world" where
  "ServeHTTP env w req =
     (let origin = Origin req;
          matches = (case corsInfo w of None \<Rightarrow> False | Some i \<Rightarrow> hostMatcher i origin);
          w1 = (if 0 < length origin \<and> corsInfo w \<noteq> None \<and> matches
                then w\<lparr>rw := HeaderSet
                               (HeaderSet (rw w) ''Access-Control-Allow-Origin'' origin)
                               ''Access-Control-Allow-Credentials'' ''true''\<rparr>
                else w)
      in case parseBody env (Body req) of
           Inl err \<Rightarrow> Inr (w1\<lparr>rw := WriteHeader (rw w1) 400\<rparr>)
         | Inr vals \<Rightarrow>
             if HasSuffix (Path req) (testPath w1) then
               handleTestRequest env w1 (parseTestParams req)
             else if HasSuffix (Path req) (bindPath w1) then
               (case parseBindParams env req vals of
                  Inl err \<Rightarrow> Inr (w1\<lparr>rw := WriteHeader (rw w1) 400\<rparr>)
                | Inr params \<Rightarrow> Inr (handleBindRequest env w1 params))
             else Inr (w1\<lparr>rw := WriteHeader (rw w1) 404\<rparr>))"

subsection \<open>A concrete environment\<close>

text \<open>
  One instance of the parameters, used to run the model on concrete requests. Its
  channels keep the offset of the last map received; a map set is refused when the
  channel is closed or when its offset leaves a gap.
\<close>

definition demoEnv :: "int env" where
  "demoEnv =
     \<lparr>parseBody = (\<lambda>b. if b = ''%'' then Inl (Error ''invalid URL escape'')
                       else Inr [(''ofs'', [b])]),
      parseSessionId = (\<lambda>s. if s = ''xyz'' then Inl (Error ''malformed session id'') else Inr s),
      parseIncomingMaps = (\<lambda>vs. case Atoi (Get vs ''ofs'') of
                                   Inl e \<Rightarrow> Inl e
                                 | Inr n \<Rightarrow> Inr (n, [[(''x'', ''hello'')]])),
      makeOriginMatcher = (\<lambda>d origin. origin = d),
      generateSesionId = ''5ca1ab1e'',
      randDraw = 7,
      newInternals = (\<lambda>v cors. - 1),
      armChannelTimeout = (\<lambda>ch. ch),
      acknowledgeArrays = (\<lambda>ch a. ch),
      receiveMaps = (\<lambda>ch offset maps.
                       if state ch = channelClosed then (Some (Error ''channel closed''), ch)
                       else if internals ch + 1 < offset then (Some (Error ''gap''), ch)
                       else (None, ch\<lparr>internals := max (internals ch) offset\<rparr>)),
      getState = (\<lambda>ch. ''[0,1,0]''),
      setBackChannel = (\<lambda>ch bc. (ch\<lparr>state := channelReady\<rparr>, bc)),
      wait = (\<lambda>bc. bc),
      terminate = (\<lambda>ch. ch\<lparr>state := channelClosed\<rparr>),
      writeHtmlHead = (\<lambda>r. Write r ''<html><body>''),
      writeHtmlDomain = (\<lambda>r d. r),
      writeHtmlRpc = (\<lambda>r s. Write r s),
      writeHtmlPadding = (\<lambda>r. r),
      writeHtmlDone = (\<lambda>r. r)\<rparr>"

definition demoChannel :: "channelState \<Rightarrow> int Channel" where
  "demoChannel st = \<lparr>Sid = ''c0ffee'', state = st, internals = 0\<rparr>"

text \<open>
  A handler as \<^verbatim>\<open>NewHandler\<close> leaves it, with a given channel map, serving a request
  on a response nothing has been written to.
\<close>

definition demoWorld :: "(SessionId \<rightharpoonup> int Channel) \<Rightarrow> int world" where
  "demoWorld m =
     \<lparr>corsInfo = None, channels = m, bindPath = DefaultBindPath, testPath = DefaultTestPath,
      rw = newResponseWriter, calls = []\<rparr>"

definition demoParams :: "SessionId \<Rightarrow> int \<Rightarrow> string \<Rightarrow> string \<Rightarrow> bindParams" where
  "demoParams s a m ofs =
     \<lparr>cver = ''8'', sid = s, qtype = queryUnset, domain = [], rid = ''r1'', aid = a,
      chunked = False, bvalues = [(''ofs'', [ofs])], method = m\<rparr>"

definition demoCors :: "string list \<Rightarrow> crossDomainInfo" where
  "demoCors ps =
     \<lparr>hostMatcher = (\<lambda>origin. origin = ''http://example.com''), cdomain = ''example.com'',
      prefixes = ps\<rparr>"

definition demoTestParams :: "int \<Rightarrow> bool \<Rightarrow> testParams" where
  "demoTestParams v i = \<lparr>ver = v, init = i, tqtype = queryUnset, tdomain = []\<rparr>"

subsection \<open>Kinds of calls\<close>



definition demoChannels :: "channelState \<Rightarrow> (SessionId \<rightharpoonup> int Channel)" where
  "demoChannels st = [''c0ffee'' \<mapsto> demoChannel st]"

definition demoRequest :: "string \<Rightarrow> string \<Rightarrow> Values \<Rightarrow> string \<Rightarrow> Request" where
  "demoRequest m p form b = \<lparr>Method = m, Path = p, Origin = [], Body = b, Form = form\<rparr>"

definition demoForm :: "string \<Rightarrow> string \<Rightarrow> string \<Rightarrow> string \<Rightarrow> Values" where
  "demoForm sd t ci a = [(''SID'', [sd]), (''TYPE'', [t]), (''CI'', [ci]), (''AID'', [a])]"

subsection \<open>JSON arrays of strings\<close>

text \<open>
  What it means for a text to be a JSON array of strings: \<open>jsonStringArray\<close> reads
  such a text (RFC 8259, without insignificant white space and without \<^verbatim>\<open>\u\<close> escapes)
  and returns its elements. A character stands for itself inside a JSON string when it
  is neither the quotation mark nor the backslash nor a control character.
\<close>

definition jsonUnescape :: "char \<Rightarrow> char option" where
  "jsonUnescape c =
     (if c = CHR 0x22 then Some (CHR 0x22)
      else if c = CHR 0x5C then Some (CHR 0x5C)
      else if c = CHR ''/'' then Some (CHR ''/'')
      else if c = CHR ''b'' then Some (CHR 0x08)
      else if c = CHR ''f'' then Some (CHR 0x0C)
      else if c = CHR ''n'' then Some (CHR 0x0A)
      else if c = CHR ''r'' then Some (CHR 0x0D)
      else if c = CHR ''t'' then Some (CHR 0x09)
      else None)"

definition jsonPlain :: "char \<Rightarrow> bool" where
  "jsonPlain c = (c \<noteq> CHR 0x22 \<and> c \<noteq> CHR 0x5C \<and> 32 \<le> (of_char c :: nat))"

datatype jsonMode = Element | InString | Escape | Separator

fun jsonRead :: "jsonMode \<Rightarrow> string \<Rightarrow> string list \<Rightarrow> string \<Rightarrow> string list option" where
  "jsonRead m acc strs [] = None"
| "jsonRead Element acc strs (c # cs) =
     (if c = CHR 0x22 then jsonRead InString [] strs cs else None)"
| "jsonRead InString acc strs (c # cs) =
     (if c = CHR 0x22 then jsonRead Separator [] (rev acc # strs) cs
      else if c = CHR 0x5C then jsonRead Escape acc strs cs
      else if jsonPlain c then jsonRead InString (c # acc) strs cs
      else None)"
| "jsonRead Escape acc strs (c # cs) =
     (case jsonUnescape c of
        None \<Rightarrow> None
      | Some d \<Rightarrow> jsonRead InString (d # acc) strs cs)"
| "jsonRead Separator acc strs (c # cs) =
     (if c = CHR '']'' \<and> cs = [] then Some (rev strs)
      else if c = CHR '','' then jsonRead Element [] strs cs
      else None)"

definition jsonStringArray :: "string \<Rightarrow> string list option" where
  "jsonStringArray s =
     (case s of
        [] \<Rightarrow> None
      | c # r \<Rightarrow>
          if c \<noteq> CHR ''['' then None
          else if r = '']'' then Some []
          else jsonRead Element [] [] r)"

subsection \<open>More concrete instances\<close>

definition demoCorsWorld :: "string list \<Rightarrow> int world" where
  "demoCorsWorld ps = (demoWorld Map.empty)\<lparr>corsInfo := Some (demoCors ps)\<rparr>"

section \<open>Properties\<close>

subsection \<open>The response writer\<close>

lemma HeaderSet_fields [simp]:
  "status (HeaderSet r k v) = status r"
  "body (HeaderSet r k v) = body r"
  "flushed (HeaderSet r k v) = flushed r"
  by (simp_all add: HeaderSet_def)

lemma setHeaders_fields [simp]:
  "status (setHeaders r hs) = status r"
  "body (setHeaders r hs) = body r"
  "flushed (setHeaders r hs) = flushed r"
  unfolding setHeaders_def
  by (induction hs arbitrary: r) (simp_all add: HeaderSet_def)

lemma setContentType_fields [simp]:
  "status (setContentType qt r) = status r"
  "body (setContentType qt r) = body r"
  "flushed (setContentType qt r) = flushed r"
  by (simp_all add: setContentType_def HeaderSet_def)

lemma WriteHeader_fields [simp]:
  "status (WriteHeader r c) = (case status r of None \<Rightarrow> Some c | Some c' \<Rightarrow> Some c')"
  "body (WriteHeader r c) = body r"
  "header (WriteHeader r c) = header r"
  "flushed (WriteHeader r c) = flushed r"
  by (auto simp: WriteHeader_def)

lemma Write_fields [simp]:
  "status (Write r s) = (case status r of None \<Rightarrow> Some 200 | Some c' \<Rightarrow> Some c')"
  "body (Write r s) = body r @ s"
  "header (Write r s) = header r"
  "flushed (Write r s) = flushed r"
  by (auto simp: Write_def Let_def)

lemma Flush_fields [simp]:
  "status (Flush r) = (case status r of None \<Rightarrow> Some 200 | Some c' \<Rightarrow> Some c')"
  "body (Flush r) = body r"
  "header (Flush r) = header r"
  "flushed (Flush r) = True"
  by (auto simp: Flush_def)

subsection \<open>The concrete environment, evaluated\<close>

lemma demoEnv_simps:
  "generateSesionId demoEnv = ''5ca1ab1e''"
  "randDraw demoEnv = 7"
  "newInternals demoEnv v cors = - 1"
  "armChannelTimeout demoEnv ch = ch"
  "acknowledgeArrays demoEnv ch a = ch"
  "receiveMaps demoEnv ch offset maps =
     (if state ch = channelClosed then (Some (Error ''channel closed''), ch)
      else if internals ch + 1 < offset then (Some (Error ''gap''), ch)
      else (None, ch\<lparr>internals := max (internals ch) offset\<rparr>))"
  "getState demoEnv ch = ''[0,1,0]''"
  "setBackChannel demoEnv ch bc = (ch\<lparr>state := channelReady\<rparr>, bc)"
  "wait demoEnv bc = bc"
  "terminate demoEnv ch = ch\<lparr>state := channelClosed\<rparr>"
  "parseSessionId demoEnv sd = (if sd = ''xyz'' then Inl (Error ''malformed session id'') else Inr sd)"
  "parseBody demoEnv b = (if b = ''%'' then Inl (Error ''invalid URL escape'') else Inr [(''ofs'', [b])])"
  "parseIncomingMaps demoEnv vs =
     (case Atoi (Get vs ''ofs'') of Inl e \<Rightarrow> Inl e | Inr n \<Rightarrow> Inr (n, [[(''x'', ''hello'')]]))"
  by (simp_all add: demoEnv_def)

lemma demoParams_simps:
  "cver (demoParams sd a m ofs) = ''8''"
  "sid (demoParams sd a m ofs) = sd"
  "qtype (demoParams sd a m ofs) = queryUnset"
  "domain (demoParams sd a m ofs) = []"
  "rid (demoParams sd a m ofs) = ''r1''"
  "aid (demoParams sd a m ofs) = a"
  "chunked (demoParams sd a m ofs) = False"
  "bvalues (demoParams sd a m ofs) = [(''ofs'', [ofs])]"
  "method (demoParams sd a m ofs) = m"
  by (simp_all add: demoParams_def)

lemma demoWorld_simps:
  "corsInfo (demoWorld m) = None"
  "channels (demoWorld m) = m"
  "bindPath (demoWorld m) = ''bind''"
  "testPath (demoWorld m) = ''test''"
  "rw (demoWorld m) = newResponseWriter"
  "calls (demoWorld m) = []"
  by (simp_all add: demoWorld_def DefaultBindPath_def DefaultTestPath_def)

lemma demoChannels_get [simp]:
  "channelMap_get (demoChannels st) ''c0ffee'' = Some (demoChannel st)"
  "demoChannels st ''c0ffee'' = Some (demoChannel st)"
  "demoChannels st ''deadbeef'' = None"
  by (simp_all add: demoChannels_def channelMap_get_def)

lemma demoChannel_simps [simp]:
  "Sid (demoChannel st) = ''c0ffee''"
  "state (demoChannel st) = st"
  "internals (demoChannel st) = 0"
  by (simp_all add: demoChannel_def)

lemma Atoi_demo [simp]: "Atoi ''0'' = Inr 0" "Atoi ''1'' = Inr 1" "Atoi ''5'' = Inr 5"
  "Atoi ''8'' = Inr 8" "Atoi ''x'' = Inl (Error ''invalid syntax'')"
  by (simp_all add: Atoi_def isDigit_def digitsVal_def digitVal_def)

lemma Get_ofs [simp]: "Get [(''ofs'', [v])] ''ofs'' = v"
  by (simp add: Get_def)

lemma demoRequest_simps [simp]:
  "Method (demoRequest m p form b) = m"
  "Path (demoRequest m p form b) = p"
  "Origin (demoRequest m p form b) = []"
  "Body (demoRequest m p form b) = b"
  "Form (demoRequest m p form b) = form"
  by (simp_all add: demoRequest_def)

lemma demo_untouched [simp]:
  "status (rw (demoWorld m)) = None" "body (rw (demoWorld m)) = []"
  by (simp_all add: demoWorld_simps newResponseWriter_def)

lemma demo_decode [simp]:
  "parseIncomingMaps demoEnv (bvalues (demoParams sd a m ''1'')) = Inr (1, [[(''x'', ''hello'')]])"
  "parseIncomingMaps demoEnv (bvalues (demoParams sd a m ''5'')) = Inr (5, [[(''x'', ''hello'')]])"
  "parseIncomingMaps demoEnv (bvalues (demoParams sd a m ''x'')) = Inl (Error ''invalid syntax'')"
  by (simp_all add: demoEnv_simps demoParams_simps)

lemma demo_receive [simp]:
  "receiveMaps demoEnv (demoChannel channelInit) 1 ms
     = (None, (demoChannel channelInit)\<lparr>internals := 1\<rparr>)"
  "receiveMaps demoEnv (demoChannel channelReady) 1 ms
     = (None, (demoChannel channelReady)\<lparr>internals := 1\<rparr>)"
  "receiveMaps demoEnv (demoChannel channelReady) 5 ms
     = (Some (Error ''gap''), demoChannel channelReady)"
  by (simp_all add: demoEnv_simps)

lemma demoForm_Get [simp]:
  "Get (demoForm sd t ci a) ''SID'' = sd"
  "Get (demoForm sd t ci a) ''TYPE'' = t"
  "Get (demoForm sd t ci a) ''CI'' = ci"
  "Get (demoForm sd t ci a) ''AID'' = a"
  "Get (demoForm sd t ci a) ''VER'' = []"
  "Get (demoForm sd t ci a) ''DOMAIN'' = []"
  "Get (demoForm sd t ci a) ''zx'' = []"
  by (simp_all add: demoForm_def Get_def)

lemma demo_parseBindParams:
  "parseBindParams demoEnv (demoRequest m p (demoForm ''c0ffee'' t ci []) b) vals
     = Inr \<lparr>cver = [], sid = ''c0ffee'', qtype = parseQueryType t, domain = [], rid = [],
            aid = - 1, chunked = (ci = ''0''), bvalues = vals, method = m\<rparr>"
  by (simp add: parseBindParams_def demoEnv_simps parseAid_def)


lemma demo_paths [simp]:
  "HasSuffix ''/bind'' ''test'' = False" "HasSuffix ''/bind'' ''bind'' = True"
  "HasSuffix ''/test'' ''test'' = True"
  by (simp_all add: HasSuffix_def)

lemma demo_parse_failures:
  "parseBody demoEnv (Body (demoRequest ''POST'' ''/bind'' [] ''%'')) = Inl (Error ''invalid URL escape'')"
  "parseBody demoEnv (Body (demoRequest ''POST'' ''/bind'' (demoForm ''xyz'' [] [] []) ''0''))
     = Inr [(''ofs'', [''0''])]"
  "parseSessionId demoEnv (Get (Form (demoRequest ''POST'' ''/bind'' (demoForm ''xyz'' [] [] []) ''0'')) ''SID'')
     = Inl (Error ''malformed session id'')"
  "parseSessionId demoEnv (Get (Form (demoRequest ''POST'' ''/bind'' (demoForm ''c0ffee'' [] [] ''x'') ''0'')) ''SID'')
     = Inr ''c0ffee''"
  "Get (Form (demoRequest ''POST'' ''/bind'' (demoForm ''c0ffee'' [] [] ''x'') ''0'')) ''AID'' \<noteq> []"
  "Atoi (Get (Form (demoRequest ''POST'' ''/bind'' (demoForm ''c0ffee'' [] [] ''x'') ''0'')) ''AID'')
     = Inl (Error ''invalid syntax'')"
  "parseBindParams demoEnv (demoRequest ''POST'' ''/bind'' (demoForm ''xyz'' [] [] []) ''0'')
      [(''ofs'', [''0''])] = Inl (Error ''malformed session id'')"
  by (simp_all add: demoEnv_simps parseBindParams_def)

lemma demoCorsWorld_simps [simp]:
  "corsInfo (demoCorsWorld ps) = Some (demoCors ps)"
  "rw (demoCorsWorld ps) = newResponseWriter"
  "prefixes (demoCors ps) = ps"
  by (simp_all add: demoCorsWorld_def demoWorld_def demoCors_def)

lemma demo_versions [simp]:
  "parseProtoVersion ''7'' = 7" "parseProtoVersion ''8'' = 8" "parseProtoVersion [] = - 1"
  by (simp_all add: parseProtoVersion_def Atoi_def isDigit_def digitsVal_def digitVal_def)

subsection \<open>The channel map and the loop that removes closed sessions\<close>

lemma removeClosedSession_channels:
  "channels (removeClosedSession w sids) x = (if x \<in> set sids then None else channels w x)"
  by (induction sids arbitrary: w) (simp_all add: Let_def channelMap_del_def)

lemma removeClosedSession_removed:
  "count_list (calls (removeClosedSession w sids)) (ChannelsDel x True)
     = count_list (calls w) (ChannelsDel x True)
       + (if x \<in> set sids \<and> channels w x \<noteq> None then 1 else 0)"
proof (induction sids arbitrary: w)
  case Nil
  show ?case by simp
next
  case (Cons s rest)
  show ?case
  proof (cases "s = x")
    case True
    then show ?thesis
      by (simp add: Cons.IH Let_def channelMap_del_def)
  next
    case False
    then show ?thesis
      by (simp add: Cons.IH Let_def channelMap_del_def)
  qed
qed

text \<open>
  C8. \<open>channelMap_del\<close> reports exactly whether the key was present and leaves the map
  without the key, all other entries as they were; deleting the same key again reports
  \<open>False\<close>. After the loop of \<open>removeClosedSession\<close> has received the ids \<open>sids\<close>,
  none of them is in the channel map, and an id \<open>x\<close> has been successfully deleted
  once if it was received and present, and not at all otherwise, however often it was
  received.
\<close>

theorem channelMap_del_once:
  "fst (channelMap_del m s) = (s \<in> dom m)
   \<and> snd (channelMap_del m s) = m(s := None)
   \<and> s \<notin> dom (snd (channelMap_del m s))
   \<and> fst (channelMap_del (snd (channelMap_del m s)) s) = False
   \<and> channels (removeClosedSession w sids) x = (if x \<in> set sids then None else channels w x)
   \<and> count_list (calls (removeClosedSession w sids)) (ChannelsDel x True)
       = count_list (calls w) (ChannelsDel x True)
         + (if x \<in> set sids \<and> channels w x \<noteq> None then 1 else 0)"
proof -
  have "fst (channelMap_del m s) = (s \<in> dom m)"
    by (auto simp: channelMap_del_def)
  moreover have "snd (channelMap_del m s) = m(s := None)"
    by (simp add: channelMap_del_def)
  moreover have "s \<notin> dom (snd (channelMap_del m s))"
    by (simp add: channelMap_del_def)
  moreover have "fst (channelMap_del (snd (channelMap_del m s)) s) = False"
    by (simp add: channelMap_del_def)
  ultimately show ?thesis
    using removeClosedSession_channels [of w sids x] removeClosedSession_removed [of w sids x]
    by simp
qed

subsection \<open>The host prefix\<close>

text \<open>
  C9. \<open>getHostPrefix\<close> returns the empty string when no cross domain information is
  configured and an element of the prefix list when the list is not empty; with an empty
  list it panics in \<open>Intn\<close>. \<open>SetCrossDomainPrefix\<close> stores an empty list as it is,
  and a test request with the supported version and MODE=init then panics after the
  status line; with no cross domain information or a non-empty list no test request
  panics.
\<close>

theorem getHostPrefix_needs_prefixes:
  "getHostPrefix None r = Inr []
   \<and> (prefixes i \<noteq> [] \<longrightarrow> (\<exists>p. getHostPrefix (Some i) r = Inr p \<and> p \<in> set (prefixes i)))
   \<and> (prefixes j = [] \<longrightarrow> getHostPrefix (Some j) r = Inl IntnInvalidArgument)
   \<and> corsInfo (SetCrossDomainPrefix env w d []) =
        Some \<lparr>hostMatcher = makeOriginMatcher env d, cdomain = d, prefixes = []\<rparr>
   \<and> (ver tp = SupportedProcolVersion \<and> init tp \<and> corsInfo w = Some j \<and> prefixes j = [] \<longrightarrow>
        handleTestRequest env w tp = Inl (IntnInvalidArgument, w\<lparr>rw := WriteHeader (rw w) 200\<rparr>))
   \<and> (corsInfo w' = None \<or> (\<exists>k. corsInfo w' = Some k \<and> prefixes k \<noteq> []) \<longrightarrow>
        (\<exists>w''. handleTestRequest env w' tp = Inr w''))"
proof -
  have nil: "getHostPrefix None q = Inr []" for q
    by (simp add: getHostPrefix_def)
  have some: "\<exists>p. getHostPrefix (Some k) q = Inr p \<and> p \<in> set (prefixes k)"
    if "prefixes k \<noteq> []" for k q
    using that by (simp add: getHostPrefix_def Intn_def)
  have none: "getHostPrefix (Some j) q = Inl IntnInvalidArgument" if "prefixes j = []" for q
    using that by (simp add: getHostPrefix_def Intn_def)
  have setter: "corsInfo (SetCrossDomainPrefix env w d []) =
        Some \<lparr>hostMatcher = makeOriginMatcher env d, cdomain = d, prefixes = []\<rparr>"
    by (simp add: SetCrossDomainPrefix_def)
  have panics: "handleTestRequest env w tp = Inl (IntnInvalidArgument, w\<lparr>rw := WriteHeader (rw w) 200\<rparr>)"
    if "ver tp = SupportedProcolVersion" "init tp" "corsInfo w = Some j" "prefixes j = []"
    using that none [of "randDraw env"] by (simp add: handleTestRequest_def)
  have returns: "\<exists>w''. handleTestRequest env w' tp = Inr w''"
    if "corsInfo w' = None \<or> (\<exists>k. corsInfo w' = Some k \<and> prefixes k \<noteq> [])"
  proof -
    from that obtain p where "getHostPrefix (corsInfo w') (randDraw env) = Inr p"
      using nil some by (metis)
    then show ?thesis
      by (simp add: handleTestRequest_def Let_def)
  qed
  from nil some none setter panics returns show ?thesis
    by blast
qed

text \<open>The theorem at a two-element list, at an empty list, and at a handler with each.\<close>

theorem getHostPrefix_needs_prefixes_witness:
  "prefixes (demoCors [''a'', ''b'']) \<noteq> []
   \<and> (\<exists>p. getHostPrefix (Some (demoCors [''a'', ''b''])) 7 = Inr p \<and> p \<in> set [''a'', ''b''])
   \<and> prefixes (demoCors []) = []
   \<and> getHostPrefix (Some (demoCors [])) 7 = Inl IntnInvalidArgument
   \<and> handleTestRequest demoEnv ((demoWorld Map.empty)\<lparr>corsInfo := Some (demoCors [])\<rparr>) (demoTestParams 8 True)
       = Inl (IntnInvalidArgument,
              (demoWorld Map.empty)\<lparr>corsInfo := Some (demoCors []),
                 rw := newResponseWriter\<lparr>status := Some 200\<rparr>\<rparr>)
   \<and> (\<exists>w''. handleTestRequest demoEnv (demoWorld Map.empty) (demoTestParams 8 True) = Inr w'')"
  using getHostPrefix_needs_prefixes
    [of 7 "demoCors [''a'', ''b'']" "demoCors []" demoEnv
        "(demoWorld Map.empty)\<lparr>corsInfo := Some (demoCors [])\<rparr>" "[]"
        "demoTestParams 8 True" "demoWorld Map.empty"]
  by (simp add: demoCors_def demoTestParams_def demoWorld_def SupportedProcolVersion_def
      WriteHeader_def newResponseWriter_def)

subsection \<open>Bind requests\<close>

text \<open>
  C1. A bind request with a session id that is not the null id and is not in the channel
  map, on a response nothing has been written to, is answered with status 400 and the
  text \<open>Unknown SID\<close>; the channel map is unchanged and the only call made is the log
  line, so nothing is acknowledged, delivered or installed on any channel.
\<close>

theorem unknown_sid_rejected:
  assumes "sid params \<noteq> nullSessionId"
    and "channelMap_get (channels w) (sid params) = None"
    and "status (rw w) = None"
  shows "status (rw (handleBindRequest env w params)) = Some 400
       \<and> body (rw (handleBindRequest env w params)) = body (rw w) @ ''Unknown SID''
       \<and> channels (handleBindRequest env w params) = channels w
       \<and> calls (handleBindRequest env w params)
           = calls w @ [LogPrintf (''failed to lookup session '' @ sid params @ ''\<newline>'')]"
  using assms by (simp add: handleBindRequest_def WriteString_def)

theorem unknown_sid_rejected_witness:
  "sid (demoParams ''deadbeef'' 3 ''POST'' ''0'') \<noteq> nullSessionId
   \<and> channelMap_get (channels (demoWorld Map.empty)) (sid (demoParams ''deadbeef'' 3 ''POST'' ''0'')) = None
   \<and> status (rw (demoWorld Map.empty)) = None
   \<and> status (rw (handleBindRequest demoEnv (demoWorld Map.empty) (demoParams ''deadbeef'' 3 ''POST'' ''0''))) = Some 400
   \<and> body (rw (handleBindRequest demoEnv (demoWorld Map.empty) (demoParams ''deadbeef'' 3 ''POST'' ''0''))) = ''Unknown SID''
   \<and> calls (handleBindRequest demoEnv (demoWorld Map.empty) (demoParams ''deadbeef'' 3 ''POST'' ''0''))
       = [LogPrintf ''failed to lookup session deadbeef\<newline>'']"
proof -
  have a: "sid (demoParams ''deadbeef'' 3 ''POST'' ''0'') \<noteq> nullSessionId"
    by (simp add: demoParams_def nullSessionId_def)
  have b: "channelMap_get (channels (demoWorld Map.empty)) (sid (demoParams ''deadbeef'' 3 ''POST'' ''0'')) = None"
    by (simp add: demoWorld_def channelMap_get_def)
  have c: "status (rw (demoWorld Map.empty)) = None"
    by (simp add: demoWorld_def newResponseWriter_def)
  show ?thesis
    using a b c unknown_sid_rejected [OF a b c, of demoEnv]
    by (simp add: demoWorld_def demoParams_def newResponseWriter_def)
qed

subsection \<open>Resolving the channel, acknowledging, dispatching\<close>





lemma handleBindRequest_new:
  assumes "sid params = nullSessionId"
  shows "handleBindRequest env w params =
    (let s = generateSesionId env;
         ch1 = armChannelTimeout env (newChannel env (cver params) s (corsInfo w));
         w1 = w\<lparr>channels := (channels w)(s \<mapsto> ch1),
                calls := calls w
                  @ [LogPrintf (''creating session '' @ s @ ''\<newline>''),
                     NewChannel (cver params) s, ChannelsSet s, ArmChannelTimeout s,
                     GoChanHandler s]\<rparr>;
         ch2 = (if aid params \<noteq> - 1 then acknowledgeArrays env ch1 (aid params) else ch1);
         w2 = (if aid params \<noteq> - 1
               then w1\<lparr>channels := (channels w1)(s \<mapsto> ch2),
                       calls := calls w1 @ [AcknowledgeArrays s (aid params)]\<rparr>
               else w1)
     in if method params = ''POST'' then handleBindPost env w2 params s ch2
        else if method params = ''GET'' then handleBindGet env w2 params s ch2
        else w2\<lparr>rw := WriteHeader (rw w2) 400\<rparr>)"
  using assms by (simp add: handleBindRequest_def Let_def channelMap_set_def channelChanged_def)

lemma handleBindRequest_found:
  assumes "sid params \<noteq> nullSessionId"
    and "channelMap_get (channels w) (sid params) = Some ch"
  shows "handleBindRequest env w params =
    (let ch2 = (if aid params \<noteq> - 1 then acknowledgeArrays env ch (aid params) else ch);
         w2 = (if aid params \<noteq> - 1
               then w\<lparr>channels := (channels w)(sid params \<mapsto> ch2),
                      calls := calls w @ [AcknowledgeArrays (sid params) (aid params)]\<rparr>
               else w)
     in if method params = ''POST'' then handleBindPost env w2 params (sid params) ch2
        else if method params = ''GET'' then handleBindGet env w2 params (sid params) ch2
        else w2\<lparr>rw := WriteHeader (rw w2) 400\<rparr>)"
  using assms by (simp add: handleBindRequest_def Let_def channelChanged_def channelMap_get_def)







text \<open>
  C10, as amended. A bind request whose method is neither POST nor GET and whose channel
  is resolved (no session id given, or one found in the channel map), on a response
  nothing has been written to, is answered with status 400 and no body. The calls made
  are those of the session creation when no session id was given, followed by the
  acknowledgement when \<open>aid params\<close> is not \<open>-1\<close>, and the channel is in the channel map
  afterwards.
\<close>

theorem other_method_rejected:
  assumes "method params \<noteq> ''POST''" and "method params \<noteq> ''GET''"
    and "sid params = nullSessionId \<or> channelMap_get (channels w) (sid params) \<noteq> None"
    and "status (rw w) = None" and "body (rw w) = []"
  shows "status (rw (handleBindRequest env w params)) = Some 400
       \<and> body (rw (handleBindRequest env w params)) = []
       \<and> calls (handleBindRequest env w params)
           = calls w
             @ (if sid params = nullSessionId
                then [LogPrintf (''creating session '' @ generateSesionId env @ ''\<newline>''),
                      NewChannel (cver params) (generateSesionId env),
                      ChannelsSet (generateSesionId env),
                      ArmChannelTimeout (generateSesionId env),
                      GoChanHandler (generateSesionId env)]
                else [])
             @ (if aid params \<noteq> - 1
                then [AcknowledgeArrays
                        (if sid params = nullSessionId then generateSesionId env else sid params)
                        (aid params)]
                else [])
       \<and> channels (handleBindRequest env w params)
            (if sid params = nullSessionId then generateSesionId env else sid params) \<noteq> None"
proof (cases "sid params = nullSessionId")
  case True
  with assms show ?thesis
    by (simp add: handleBindRequest_def Let_def channelMap_set_def channelChanged_def)
next
  case False
  with assms obtain ch where "channelMap_get (channels w) (sid params) = Some ch"
    by auto
  with False assms show ?thesis
    by (simp add: handleBindRequest_def Let_def channelMap_get_def channelChanged_def)
qed

theorem other_method_rejected_witness:
  "method (demoParams [] 3 ''PUT'' ''0'') \<noteq> ''POST''
   \<and> method (demoParams [] 3 ''PUT'' ''0'') \<noteq> ''GET''
   \<and> sid (demoParams [] 3 ''PUT'' ''0'') = nullSessionId
   \<and> status (rw (demoWorld Map.empty)) = None
   \<and> body (rw (demoWorld Map.empty)) = []
   \<and> status (rw (handleBindRequest demoEnv (demoWorld Map.empty) (demoParams [] 3 ''PUT'' ''0''))) = Some 400
   \<and> body (rw (handleBindRequest demoEnv (demoWorld Map.empty) (demoParams [] 3 ''PUT'' ''0''))) = []
   \<and> calls (handleBindRequest demoEnv (demoWorld Map.empty) (demoParams [] 3 ''PUT'' ''0''))
       = [LogPrintf ''creating session 5ca1ab1e\<newline>'', NewChannel ''8'' ''5ca1ab1e'',
          ChannelsSet ''5ca1ab1e'', ArmChannelTimeout ''5ca1ab1e'', GoChanHandler ''5ca1ab1e'',
          AcknowledgeArrays ''5ca1ab1e'' 3]"
proof -
  have a: "method (demoParams [] 3 ''PUT'' ''0'') \<noteq> ''POST''"
    and b: "method (demoParams [] 3 ''PUT'' ''0'') \<noteq> ''GET''"
    and c: "sid (demoParams [] 3 ''PUT'' ''0'') = nullSessionId"
    and d: "status (rw (demoWorld Map.empty)) = None"
    and e: "body (rw (demoWorld Map.empty)) = []"
    by (simp_all add: demoParams_simps demoWorld_simps nullSessionId_def newResponseWriter_def)
  show ?thesis
    using a b c d e other_method_rejected [OF a b disjI1 d e, OF c, of demoEnv]
    by (simp add: demoParams_simps demoWorld_simps demoEnv_simps nullSessionId_def)
qed

text \<open>
  C10 as it was stated covers every bind request with such a method. With a session id
  that is not in the channel map the answer has the body \<open>Unknown SID\<close>, and nothing is
  acknowledged although the AID is 3.
\<close>

theorem other_method_unknown_sid_counterexample:
  "method (demoParams ''deadbeef'' 3 ''PUT'' ''0'') = ''PUT''
   \<and> aid (demoParams ''deadbeef'' 3 ''PUT'' ''0'') = 3
   \<and> status (rw (handleBindRequest demoEnv (demoWorld (demoChannels channelReady))
                   (demoParams ''deadbeef'' 3 ''PUT'' ''0''))) = Some 400
   \<and> body (rw (handleBindRequest demoEnv (demoWorld (demoChannels channelReady))
                   (demoParams ''deadbeef'' 3 ''PUT'' ''0''))) = ''Unknown SID''
   \<and> calls (handleBindRequest demoEnv (demoWorld (demoChannels channelReady))
                   (demoParams ''deadbeef'' 3 ''PUT'' ''0''))
       = [LogPrintf ''failed to lookup session deadbeef\<newline>'']"
  by (simp add: handleBindRequest_def Let_def demoParams_simps demoWorld_simps demoEnv_simps
      nullSessionId_def newResponseWriter_def WriteString_def channelMap_get_def)

subsection \<open>Forward channel and back channel\<close>

lemma digitsVal_snoc: "digitsVal (ds @ [c]) = 10 * digitsVal ds + digitVal c"
  by (simp add: digitsVal_def)

lemma digitChar_digit:
  assumes "d < 10"
  shows "digitVal (digitChar d) = int d \<and> isDigit (digitChar d)"
proof -
  from assms have "d = 0 \<or> d = 1 \<or> d = 2 \<or> d = 3 \<or> d = 4 \<or> d = 5 \<or> d = 6 \<or> d = 7
      \<or> d = 8 \<or> d = 9"
    by arith
  then show ?thesis
    by (elim disjE) (simp_all add: digitChar_def digitVal_def isDigit_def)
qed

lemma FormatInt_decimal:
  "digitsVal (FormatInt n) = int n \<and> list_all isDigit (FormatInt n)"
proof (induction n rule: FormatInt.induct)
  case (1 n)
  show ?case
  proof (cases "n < 10")
    case True
    then show ?thesis
      using digitChar_digit [of n] by (simp add: FormatInt.simps [of n] digitsVal_def)
  next
    case False
    have "n mod 10 < 10" by simp
    then have d: "digitVal (digitChar (n mod 10)) = int (n mod 10)"
        "isDigit (digitChar (n mod 10))"
      using digitChar_digit [of "n mod 10"] by simp_all
    from False 1 have ih: "digitsVal (FormatInt (n div 10)) = int (n div 10)"
        "list_all isDigit (FormatInt (n div 10))"
      by simp_all
    have "FormatInt n = FormatInt (n div 10) @ [digitChar (n mod 10)]"
      using False by (simp add: FormatInt.simps [of n])
    then show ?thesis
      using d ih by (simp add: digitsVal_snoc zdiv_int zmod_int)
  qed
qed

lemma parseQueryType_iff:
  "(parseQueryType t = queryTerminate) = (t = ''terminate'')"
  "(parseQueryType t = queryHtml) = (t = ''html'')"
  by (simp_all add: parseQueryType_def)

lemma parseBindParams_fields:
  assumes "parseBindParams env req vals = Inr params"
  shows "qtype params = parseQueryType (Get (Form req) ''TYPE'')"
    and "chunked params = (Get (Form req) ''CI'' = ''0'')"
    and "domain params = Get (Form req) ''DOMAIN''"
    and "rid params = Get (Form req) ''zx''"
    and "method params = Method req"
    and "bvalues params = vals"
    and "cver params = Get (Form req) ''VER''"
    and "parseSessionId env (Get (Form req) ''SID'') = Inr (sid params)"
    and "parseAid (Get (Form req) ''AID'') = Inr (aid params)"
  using assms by (auto simp: parseBindParams_def split: sum.splits)

lemma framing_headers:
  "map_of (header (setHeaders (setContentType qt r) headers)) ''Content-Type''
     = Some (if qt = queryHtml then ''text/html'' else ''text/plain'')"
  "map_of (header (setHeaders r headers)) ''Cache-Control''
     = Some ''no-cache, no-store, max-age=0, must-revalidate''"
  "map_of (header (setHeaders r headers)) ''Expires'' = Some ''Fri, 01 Jan 1990 00:00:00 GMT''"
  "map_of (header (setHeaders r headers)) ''X-Content-Type-Options'' = Some ''nosniff''"
  "map_of (header (setHeaders r headers)) ''Transfer-Encoding'' = Some ''chunked''"
  "map_of (header (setHeaders r headers)) ''Pragma'' = Some ''no-cache''"
  by (simp_all add: setHeaders_def headers_def HeaderSet_def setContentType_def update_conv')

text \<open>
  C3. A forward channel POST on a response nothing has been written to, whose maps decode
  and are accepted by \<open>receiveMaps\<close>, leaving the channel as \<open>ch1\<close>: if \<open>ch1\<close> is
  in the Init state, the handler sets the framing headers, writes status 200, flushes,
  installs on this response a new back channel that is neither chunked nor in markup
  mode, and waits on it; otherwise it answers with status 200 and a body that is the
  decimal numeral of the length of the JSON state snapshot, a newline, and the snapshot.
\<close>

theorem forward_channel_post:
  assumes "parseIncomingMaps env (bvalues params) = Inr (offset, maps)"
    and "receiveMaps env ch offset maps = (None, ch1)"
    and "status (rw w) = None" and "body (rw w) = []"
  shows "(state ch1 = channelInit \<longrightarrow>
           (let bc = \<lparr>bcSid = Sid ch1,
                      bcRw = Flush (WriteHeader (setHeaders (rw w) headers) 200),
                      isHtml = False, bcDomain = [], bcRid = rid params, bcChunked = False\<rparr>
            in calls (handleBindPost env w params key ch)
                 = calls w @ [ReceiveMaps key offset maps, SetBackChannel key bc, Wait key]
             \<and> status (bcRw bc) = Some 200 \<and> body (bcRw bc) = [] \<and> flushed (bcRw bc)
             \<and> channels (handleBindPost env w params key ch)
                 = (channels w)(key \<mapsto> fst (setBackChannel env ch1 bc))
             \<and> rw (handleBindPost env w params key ch)
                 = bcRw (wait env (snd (setBackChannel env ch1 bc)))))
       \<and> (state ch1 \<noteq> channelInit \<longrightarrow>
            status (rw (handleBindPost env w params key ch)) = Some 200
            \<and> body (rw (handleBindPost env w params key ch))
                = FormatInt (length (getState env ch1)) @ ''\<newline>'' @ getState env ch1
            \<and> digitsVal (FormatInt (length (getState env ch1))) = int (length (getState env ch1))
            \<and> calls (handleBindPost env w params key ch)
                = calls w @ [ReceiveMaps key offset maps, GetState key]
            \<and> channels (handleBindPost env w params key ch) = (channels w)(key \<mapsto> ch1))"
proof (cases "state ch1 = channelInit")
  case True
  with assms show ?thesis
    by (simp add: handleBindPost_def Let_def newBackChannel_def)
next
  case False
  with assms FormatInt_decimal [of "length (getState env ch1)"] show ?thesis
    by (simp add: handleBindPost_def Let_def WriteString_def)
qed

theorem forward_channel_post_witness:
  "parseIncomingMaps demoEnv (bvalues (demoParams ''c0ffee'' (- 1) ''POST'' ''1''))
     = Inr (1, [[(''x'', ''hello'')]])
   \<and> receiveMaps demoEnv (demoChannel channelInit) 1 [[(''x'', ''hello'')]]
       = (None, (demoChannel channelInit)\<lparr>internals := 1\<rparr>)
   \<and> receiveMaps demoEnv (demoChannel channelReady) 1 [[(''x'', ''hello'')]]
       = (None, (demoChannel channelReady)\<lparr>internals := 1\<rparr>)
   \<and> status (rw (demoWorld (demoChannels channelInit))) = None
   \<and> body (rw (demoWorld (demoChannels channelInit))) = []
   \<and> (\<exists>bc. calls (handleBindPost demoEnv (demoWorld (demoChannels channelInit))
                    (demoParams ''c0ffee'' (- 1) ''POST'' ''1'') ''c0ffee''
                    (demoChannel channelInit))
              = [ReceiveMaps ''c0ffee'' 1 [[(''x'', ''hello'')]], SetBackChannel ''c0ffee'' bc,
                 Wait ''c0ffee'']
            \<and> \<not> bcChunked bc \<and> \<not> isHtml bc \<and> status (bcRw bc) = Some 200)
   \<and> status (rw (handleBindPost demoEnv (demoWorld (demoChannels channelReady))
                    (demoParams ''c0ffee'' (- 1) ''POST'' ''1'') ''c0ffee''
                    (demoChannel channelReady))) = Some 200
   \<and> body (rw (handleBindPost demoEnv (demoWorld (demoChannels channelReady))
                    (demoParams ''c0ffee'' (- 1) ''POST'' ''1'') ''c0ffee''
                    (demoChannel channelReady))) = ''7\<newline>[0,1,0]''"
proof -
  have a: "parseIncomingMaps demoEnv (bvalues (demoParams ''c0ffee'' (- 1) ''POST'' ''1''))
     = Inr (1, [[(''x'', ''hello'')]])"
    by simp
  have b1: "receiveMaps demoEnv (demoChannel channelInit) 1 [[(''x'', ''hello'')]]
       = (None, (demoChannel channelInit)\<lparr>internals := 1\<rparr>)"
    and b2: "receiveMaps demoEnv (demoChannel channelReady) 1 [[(''x'', ''hello'')]]
       = (None, (demoChannel channelReady)\<lparr>internals := 1\<rparr>)"
    by simp_all
  have c: "status (rw (demoWorld (demoChannels st))) = None" for st
    by simp
  have d: "body (rw (demoWorld (demoChannels st))) = []" for st
    by simp
  have e: "\<exists>bc. calls (handleBindPost demoEnv (demoWorld (demoChannels channelInit))
                    (demoParams ''c0ffee'' (- 1) ''POST'' ''1'') ''c0ffee''
                    (demoChannel channelInit))
              = [ReceiveMaps ''c0ffee'' 1 [[(''x'', ''hello'')]], SetBackChannel ''c0ffee'' bc,
                 Wait ''c0ffee'']
            \<and> \<not> bcChunked bc \<and> \<not> isHtml bc \<and> status (bcRw bc) = Some 200"
    using forward_channel_post [OF a b1 c d, of channelInit "''c0ffee''", THEN conjunct1]
    by (simp add: Let_def demoWorld_simps)
  have f: "status (rw (handleBindPost demoEnv (demoWorld (demoChannels channelReady))
                    (demoParams ''c0ffee'' (- 1) ''POST'' ''1'') ''c0ffee''
                    (demoChannel channelReady))) = Some 200
     \<and> body (rw (handleBindPost demoEnv (demoWorld (demoChannels channelReady))
                    (demoParams ''c0ffee'' (- 1) ''POST'' ''1'') ''c0ffee''
                    (demoChannel channelReady))) = ''7\<newline>[0,1,0]''"
    using forward_channel_post [OF a b2 c d, of channelReady "''c0ffee''", THEN conjunct2]
    by (simp add: demoEnv_simps FormatInt.simps digitChar_def)
  from a b1 b2 c [of channelInit] d [of channelInit] e f show ?thesis
    by blast
qed

text \<open>
  C5. A bind GET whose parameters parsed, on a response nothing has been written to. If
  TYPE is \<open>terminate\<close> the handler calls \<open>terminate\<close> on the channel and leaves the
  response untouched, so that the request ends with status 200 and an empty body.
  Otherwise it sets the content type and the five framing headers (Cache-Control,
  Expires, X-Content-Type-Options, Transfer-Encoding, Pragma, each with its value),
  writes status 200, flushes, installs on this response a new back channel that is chunked exactly when CI
  is \<open>0\<close> and in markup mode exactly when TYPE is \<open>html\<close>, and waits on it.
\<close>

theorem back_channel_get:
  assumes "parseBindParams env req vals = Inr params"
    and "status (rw w) = None" and "body (rw w) = []"
  shows "(Get (Form req) ''TYPE'' = ''terminate'' \<longrightarrow>
            calls (handleBindGet env w params key ch) = calls w @ [Terminate key]
            \<and> channels (handleBindGet env w params key ch) = (channels w)(key \<mapsto> terminate env ch)
            \<and> rw (handleBindGet env w params key ch) = rw w
            \<and> statusCode (rw (handleBindGet env w params key ch)) = 200
            \<and> body (rw (handleBindGet env w params key ch)) = [])
       \<and> (Get (Form req) ''TYPE'' \<noteq> ''terminate'' \<longrightarrow>
            (let r1 = Flush (WriteHeader
                        (setHeaders (setContentType (qtype params) (rw w)) headers) 200);
                 bc = \<lparr>bcSid = Sid ch, bcRw = r1,
                       isHtml = (Get (Form req) ''TYPE'' = ''html''),
                       bcDomain = Get (Form req) ''DOMAIN'',
                       bcRid = Get (Form req) ''zx'',
                       bcChunked = (Get (Form req) ''CI'' = ''0'')\<rparr>
             in calls (handleBindGet env w params key ch)
                  = calls w @ [SetBackChannel key bc, Wait key]
              \<and> status r1 = Some 200 \<and> body r1 = [] \<and> flushed r1
              \<and> map_of (header r1) ''Content-Type''
                  = Some (if Get (Form req) ''TYPE'' = ''html'' then ''text/html''
                          else ''text/plain'')
              \<and> map_of (header r1) ''Cache-Control''
                  = Some ''no-cache, no-store, max-age=0, must-revalidate''
              \<and> map_of (header r1) ''Expires'' = Some ''Fri, 01 Jan 1990 00:00:00 GMT''
              \<and> map_of (header r1) ''X-Content-Type-Options'' = Some ''nosniff''
              \<and> map_of (header r1) ''Transfer-Encoding'' = Some ''chunked''
              \<and> map_of (header r1) ''Pragma'' = Some ''no-cache''
              \<and> channels (handleBindGet env w params key ch)
                  = (channels w)(key \<mapsto> fst (setBackChannel env ch bc))
              \<and> rw (handleBindGet env w params key ch)
                  = bcRw (wait env (snd (setBackChannel env ch bc)))))"
proof (cases "Get (Form req) ''TYPE'' = ''terminate''")
  case True
  with assms show ?thesis
    by (simp add: handleBindGet_def parseBindParams_fields [OF assms(1)] parseQueryType_iff
        statusCode_def)
next
  case False
  with assms framing_headers(1) [of "qtype params" "rw w"]
    framing_headers(2-6) [of "setContentType (qtype params) (rw w)"] show ?thesis
    by (simp add: handleBindGet_def Let_def parseBindParams_fields [OF assms(1)]
        parseQueryType_iff newBackChannel_def setChunked_def)
qed

theorem back_channel_get_witness:
  "parseBindParams demoEnv (demoRequest ''GET'' ''/bind'' (demoForm ''c0ffee'' ''terminate'' ''1'' []) []) []
     = Inr \<lparr>cver = [], sid = ''c0ffee'', qtype = parseQueryType ''terminate'', domain = [],
            rid = [], aid = - 1, chunked = (''1'' = ''0''), bvalues = [], method = ''GET''\<rparr>
   \<and> parseBindParams demoEnv (demoRequest ''GET'' ''/bind'' (demoForm ''c0ffee'' ''html'' ''0'' []) []) []
     = Inr \<lparr>cver = [], sid = ''c0ffee'', qtype = parseQueryType ''html'', domain = [],
            rid = [], aid = - 1, chunked = (''0'' = ''0''), bvalues = [], method = ''GET''\<rparr>
   \<and> status (rw (demoWorld (demoChannels channelReady))) = None
   \<and> body (rw (demoWorld (demoChannels channelReady))) = []
   \<and> calls (handleBindGet demoEnv (demoWorld (demoChannels channelReady))
              \<lparr>cver = [], sid = ''c0ffee'', qtype = parseQueryType ''terminate'', domain = [],
               rid = [], aid = - 1, chunked = (''1'' = ''0''), bvalues = [], method = ''GET''\<rparr>
              ''c0ffee'' (demoChannel channelReady)) = [Terminate ''c0ffee'']
   \<and> statusCode (rw (handleBindGet demoEnv (demoWorld (demoChannels channelReady))
              \<lparr>cver = [], sid = ''c0ffee'', qtype = parseQueryType ''terminate'', domain = [],
               rid = [], aid = - 1, chunked = (''1'' = ''0''), bvalues = [], method = ''GET''\<rparr>
              ''c0ffee'' (demoChannel channelReady))) = 200
   \<and> body (rw (handleBindGet demoEnv (demoWorld (demoChannels channelReady))
              \<lparr>cver = [], sid = ''c0ffee'', qtype = parseQueryType ''terminate'', domain = [],
               rid = [], aid = - 1, chunked = (''1'' = ''0''), bvalues = [], method = ''GET''\<rparr>
              ''c0ffee'' (demoChannel channelReady))) = []
   \<and> (\<exists>bc. calls (handleBindGet demoEnv (demoWorld (demoChannels channelReady))
              \<lparr>cver = [], sid = ''c0ffee'', qtype = parseQueryType ''html'', domain = [],
               rid = [], aid = - 1, chunked = (''0'' = ''0''), bvalues = [], method = ''GET''\<rparr>
              ''c0ffee'' (demoChannel channelReady))
            = [SetBackChannel ''c0ffee'' bc, Wait ''c0ffee'']
          \<and> bcChunked bc \<and> isHtml bc \<and> status (bcRw bc) = Some 200
          \<and> map_of (header (bcRw bc)) ''Content-Type'' = Some ''text/html''
          \<and> map_of (header (bcRw bc)) ''Cache-Control''
              = Some ''no-cache, no-store, max-age=0, must-revalidate''
          \<and> map_of (header (bcRw bc)) ''Expires'' = Some ''Fri, 01 Jan 1990 00:00:00 GMT''
          \<and> map_of (header (bcRw bc)) ''X-Content-Type-Options'' = Some ''nosniff''
          \<and> map_of (header (bcRw bc)) ''Transfer-Encoding'' = Some ''chunked''
          \<and> map_of (header (bcRw bc)) ''Pragma'' = Some ''no-cache'')"
proof -
  note a = demo_parseBindParams [of "''GET''" "''/bind''" "''terminate''" "''1''" "[]" "[]"]
  note b = demo_parseBindParams [of "''GET''" "''/bind''" "''html''" "''0''" "[]" "[]"]
  have c: "status (rw (demoWorld (demoChannels channelReady))) = None"
    and d: "body (rw (demoWorld (demoChannels channelReady))) = []"
    by simp_all
  note t = back_channel_get [OF a c d, of "''c0ffee''" "demoChannel channelReady", THEN conjunct1]
  note h = back_channel_get [OF b c d, of "''c0ffee''" "demoChannel channelReady", THEN conjunct2]
  have e: "calls (handleBindGet demoEnv (demoWorld (demoChannels channelReady))
              \<lparr>cver = [], sid = ''c0ffee'', qtype = parseQueryType ''terminate'', domain = [],
               rid = [], aid = - 1, chunked = (''1'' = ''0''), bvalues = [], method = ''GET''\<rparr>
              ''c0ffee'' (demoChannel channelReady)) = [Terminate ''c0ffee'']
   \<and> statusCode (rw (handleBindGet demoEnv (demoWorld (demoChannels channelReady))
              \<lparr>cver = [], sid = ''c0ffee'', qtype = parseQueryType ''terminate'', domain = [],
               rid = [], aid = - 1, chunked = (''1'' = ''0''), bvalues = [], method = ''GET''\<rparr>
              ''c0ffee'' (demoChannel channelReady))) = 200
   \<and> body (rw (handleBindGet demoEnv (demoWorld (demoChannels channelReady))
              \<lparr>cver = [], sid = ''c0ffee'', qtype = parseQueryType ''terminate'', domain = [],
               rid = [], aid = - 1, chunked = (''1'' = ''0''), bvalues = [], method = ''GET''\<rparr>
              ''c0ffee'' (demoChannel channelReady))) = []"
    using t by (simp add: demoWorld_simps statusCode_def newResponseWriter_def)
  have f: "\<exists>bc. calls (handleBindGet demoEnv (demoWorld (demoChannels channelReady))
              \<lparr>cver = [], sid = ''c0ffee'', qtype = parseQueryType ''html'', domain = [],
               rid = [], aid = - 1, chunked = (''0'' = ''0''), bvalues = [], method = ''GET''\<rparr>
              ''c0ffee'' (demoChannel channelReady))
            = [SetBackChannel ''c0ffee'' bc, Wait ''c0ffee'']
          \<and> bcChunked bc \<and> isHtml bc \<and> status (bcRw bc) = Some 200
          \<and> map_of (header (bcRw bc)) ''Content-Type'' = Some ''text/html''
          \<and> map_of (header (bcRw bc)) ''Cache-Control''
              = Some ''no-cache, no-store, max-age=0, must-revalidate''
          \<and> map_of (header (bcRw bc)) ''Expires'' = Some ''Fri, 01 Jan 1990 00:00:00 GMT''
          \<and> map_of (header (bcRw bc)) ''X-Content-Type-Options'' = Some ''nosniff''
          \<and> map_of (header (bcRw bc)) ''Transfer-Encoding'' = Some ''chunked''
          \<and> map_of (header (bcRw bc)) ''Pragma'' = Some ''no-cache''"
    using h by (simp add: Let_def demoWorld_simps)
  from a b c d e f show ?thesis
    by blast
qed

subsection \<open>Failures\<close>

lemma ServeHTTP_body_failure:
  assumes "parseBody env (Body req) = Inl e" and "status (rw w) = None"
  shows "\<exists>w'. ServeHTTP env w req = Inr w' \<and> status (rw w') = Some 400
           \<and> body (rw w') = body (rw w) \<and> calls w' = calls w \<and> channels w' = channels w"
  using assms by (simp add: ServeHTTP_def Let_def)

lemma ServeHTTP_params_failure:
  assumes "parseBody env (Body req) = Inr vals"
    and "\<not> HasSuffix (Path req) (testPath w)" and "HasSuffix (Path req) (bindPath w)"
    and "parseBindParams env req vals = Inl e" and "status (rw w) = None"
  shows "\<exists>w'. ServeHTTP env w req = Inr w' \<and> status (rw w') = Some 400
           \<and> body (rw w') = body (rw w) \<and> calls w' = calls w \<and> channels w' = channels w"
  using assms by (simp add: ServeHTTP_def Let_def)

lemma parseBindParams_failures:
  "parseSessionId env (Get (Form req) ''SID'') = Inl e \<Longrightarrow> parseBindParams env req vals = Inl e"
  "parseSessionId env (Get (Form req) ''SID'') = Inr s \<Longrightarrow> Get (Form req) ''AID'' \<noteq> []
     \<Longrightarrow> Atoi (Get (Form req) ''AID'') = Inl e \<Longrightarrow> parseBindParams env req vals = Inl e"
  by (simp_all add: parseBindParams_def parseAid_def)

lemma post_decode_failure:
  assumes "method p = ''POST''"
    and "sid p = nullSessionId \<or> channelMap_get (channels w) (sid p) \<noteq> None"
    and "parseIncomingMaps env (bvalues p) = Inl e" and "status (rw w) = None"
  shows "status (rw (handleBindRequest env w p)) = Some 400
       \<and> body (rw (handleBindRequest env w p)) = body (rw w)
       \<and> calls (handleBindRequest env w p)
           = calls w
             @ (if sid p = nullSessionId
                then [LogPrintf (''creating session '' @ generateSesionId env @ ''\<newline>''),
                      NewChannel (cver p) (generateSesionId env),
                      ChannelsSet (generateSesionId env),
                      ArmChannelTimeout (generateSesionId env),
                      GoChanHandler (generateSesionId env)]
                else [])
             @ (if aid p \<noteq> - 1
                then [AcknowledgeArrays
                        (if sid p = nullSessionId then generateSesionId env else sid p) (aid p)]
                else [])"
proof (cases "sid p = nullSessionId")
  case True
  with assms show ?thesis
    by (simp add: handleBindRequest_new [OF True] Let_def handleBindPost_def)
next
  case False
  with assms obtain ch where ch: "channelMap_get (channels w) (sid p) = Some ch"
    by auto
  from False assms show ?thesis
    by (simp add: handleBindRequest_found [OF False ch] Let_def handleBindPost_def)
qed

lemma post_receive_failure:
  assumes "parseIncomingMaps env (bvalues p) = Inr (offset, maps)"
    and "receiveMaps env ch offset maps = (Some (Error msg), ch')"
    and "status (rw w) = None"
  shows "status (rw (handleBindPost env w p k ch)) = Some 500
       \<and> body (rw (handleBindPost env w p k ch)) = body (rw w)
       \<and> header (rw (handleBindPost env w p k ch)) = header (rw w)
       \<and> calls (handleBindPost env w p k ch)
           = calls w @ [ReceiveMaps k offset maps, LogPrintf (Sid ch' @ '': '' @ msg @ ''\<newline>'')]"
  using assms by (simp add: handleBindPost_def Let_def)

text \<open>
  C4, as amended. On a response nothing has been written to: a request whose body does
  not parse, and a bind request whose parameters do not parse (a malformed session id, or
  an AID that is not empty and not an integer), are answered with status 400, and no call
  is made and the channel map is unchanged. A forward channel POST on a resolved channel
  whose maps do not decode is answered with status 400 after the calls that come before
  the method switch, which are the session creation when no session id was given and
  the acknowledgement when the AID is not \<open>-1\<close>, and no others. A failure returned by
  \<open>receiveMaps\<close> is answered with status 500; nothing is written to the body and no
  header is set, and the calls of the forward channel handler are the map delivery and
  the log line, so there is no state snapshot and no back channel.
\<close>

theorem parse_failures_400_receive_failure_500:
  "(parseBody env (Body req1) = Inl e1 \<and> status (rw w1) = None \<longrightarrow>
      (\<exists>w'. ServeHTTP env w1 req1 = Inr w' \<and> status (rw w') = Some 400
           \<and> body (rw w') = body (rw w1) \<and> calls w' = calls w1 \<and> channels w' = channels w1))
   \<and> (parseBody env (Body req2) = Inr vals2
        \<and> \<not> HasSuffix (Path req2) (testPath w2) \<and> HasSuffix (Path req2) (bindPath w2)
        \<and> parseBindParams env req2 vals2 = Inl e2 \<and> status (rw w2) = None \<longrightarrow>
      (\<exists>w'. ServeHTTP env w2 req2 = Inr w' \<and> status (rw w') = Some 400
           \<and> body (rw w') = body (rw w2) \<and> calls w' = calls w2 \<and> channels w' = channels w2))
   \<and> (parseSessionId env (Get (Form req3) ''SID'') = Inl e3 \<longrightarrow>
        parseBindParams env req3 vals3 = Inl e3)
   \<and> (parseSessionId env (Get (Form req4) ''SID'') = Inr s4 \<and> Get (Form req4) ''AID'' \<noteq> []
        \<and> Atoi (Get (Form req4) ''AID'') = Inl e4 \<longrightarrow>
        parseBindParams env req4 vals4 = Inl e4)
   \<and> (method p5 = ''POST''
        \<and> (sid p5 = nullSessionId \<or> channelMap_get (channels w5) (sid p5) \<noteq> None)
        \<and> parseIncomingMaps env (bvalues p5) = Inl e5 \<and> status (rw w5) = None \<longrightarrow>
        status (rw (handleBindRequest env w5 p5)) = Some 400
        \<and> body (rw (handleBindRequest env w5 p5)) = body (rw w5)
        \<and> calls (handleBindRequest env w5 p5)
           = calls w5
             @ (if sid p5 = nullSessionId
                then [LogPrintf (''creating session '' @ generateSesionId env @ ''\<newline>''),
                      NewChannel (cver p5) (generateSesionId env),
                      ChannelsSet (generateSesionId env),
                      ArmChannelTimeout (generateSesionId env),
                      GoChanHandler (generateSesionId env)]
                else [])
             @ (if aid p5 \<noteq> - 1
                then [AcknowledgeArrays
                        (if sid p5 = nullSessionId then generateSesionId env else sid p5)
                        (aid p5)]
                else []))
   \<and> (parseIncomingMaps env (bvalues p6) = Inr (o6, m6)
        \<and> receiveMaps env c6 o6 m6 = (Some (Error msg6), c6') \<and> status (rw w6) = None \<longrightarrow>
        status (rw (handleBindPost env w6 p6 k6 c6)) = Some 500
        \<and> body (rw (handleBindPost env w6 p6 k6 c6)) = body (rw w6)
        \<and> header (rw (handleBindPost env w6 p6 k6 c6)) = header (rw w6)
        \<and> calls (handleBindPost env w6 p6 k6 c6)
           = calls w6
             @ [ReceiveMaps k6 o6 m6, LogPrintf (Sid c6' @ '': '' @ msg6 @ ''\<newline>'')])"
  using ServeHTTP_body_failure [of env req1 e1 w1]
    ServeHTTP_params_failure [of env req2 vals2 w2 e2]
    parseBindParams_failures(1) [of env req3 e3 vals3]
    parseBindParams_failures(2) [of env req4 s4 e4 vals4]
    post_decode_failure [of p5 w5 env e5]
    post_receive_failure [of env p6 o6 m6 c6 msg6 c6' w6 k6]
  by blast

theorem parse_failures_400_receive_failure_500_witness:
  "parseBody demoEnv (Body (demoRequest ''POST'' ''/bind'' [] ''%'')) = Inl (Error ''invalid URL escape'')
   \<and> (\<exists>w'. ServeHTTP demoEnv (demoWorld (demoChannels channelReady))
              (demoRequest ''POST'' ''/bind'' [] ''%'') = Inr w'
          \<and> status (rw w') = Some 400 \<and> body (rw w') = [] \<and> calls w' = [])
   \<and> parseBindParams demoEnv (demoRequest ''POST'' ''/bind'' (demoForm ''xyz'' [] [] []) ''0'')
        [(''ofs'', [''0''])] = Inl (Error ''malformed session id'')
   \<and> (\<exists>w'. ServeHTTP demoEnv (demoWorld (demoChannels channelReady))
              (demoRequest ''POST'' ''/bind'' (demoForm ''xyz'' [] [] []) ''0'') = Inr w'
          \<and> status (rw w') = Some 400 \<and> body (rw w') = [] \<and> calls w' = [])
   \<and> parseBindParams demoEnv (demoRequest ''POST'' ''/bind'' (demoForm ''c0ffee'' [] [] ''x'') ''0'') []
        = Inl (Error ''invalid syntax'')
   \<and> parseIncomingMaps demoEnv (bvalues (demoParams ''c0ffee'' 3 ''POST'' ''x''))
        = Inl (Error ''invalid syntax'')
   \<and> status (rw (handleBindRequest demoEnv (demoWorld (demoChannels channelReady))
                   (demoParams ''c0ffee'' 3 ''POST'' ''x''))) = Some 400
   \<and> calls (handleBindRequest demoEnv (demoWorld (demoChannels channelReady))
              (demoParams ''c0ffee'' 3 ''POST'' ''x'')) = [AcknowledgeArrays ''c0ffee'' 3]
   \<and> receiveMaps demoEnv (demoChannel channelReady) 5 [[(''x'', ''hello'')]]
        = (Some (Error ''gap''), demoChannel channelReady)
   \<and> status (rw (handleBindPost demoEnv (demoWorld (demoChannels channelReady))
                   (demoParams ''c0ffee'' (- 1) ''POST'' ''5'') ''c0ffee''
                   (demoChannel channelReady))) = Some 500
   \<and> body (rw (handleBindPost demoEnv (demoWorld (demoChannels channelReady))
                   (demoParams ''c0ffee'' (- 1) ''POST'' ''5'') ''c0ffee''
                   (demoChannel channelReady))) = []
   \<and> calls (handleBindPost demoEnv (demoWorld (demoChannels channelReady))
                   (demoParams ''c0ffee'' (- 1) ''POST'' ''5'') ''c0ffee''
                   (demoChannel channelReady))
        = [ReceiveMaps ''c0ffee'' 5 [[(''x'', ''hello'')]], LogPrintf ''c0ffee: gap\<newline>'']"
proof -
  define W where "W = demoWorld (demoChannels channelReady)"
  have W: "status (rw W) = None" "body (rw W) = []" "calls W = []"
    "testPath W = ''test''" "bindPath W = ''bind''"
    "channelMap_get (channels W) ''c0ffee'' \<noteq> None"
    by (simp_all add: W_def demoWorld_simps newResponseWriter_def)
  note t = parse_failures_400_receive_failure_500
    [where env = demoEnv and ?w1.0 = W and ?w2.0 = W and ?w5.0 = W and ?w6.0 = W
       and ?req1.0 = "demoRequest ''POST'' ''/bind'' [] ''%''"
       and ?e1.0 = "Error ''invalid URL escape''"
       and ?req2.0 = "demoRequest ''POST'' ''/bind'' (demoForm ''xyz'' [] [] []) ''0''"
       and ?vals2.0 = "[(''ofs'', [''0''])]" and ?e2.0 = "Error ''malformed session id''"
       and ?req3.0 = "demoRequest ''POST'' ''/bind'' (demoForm ''xyz'' [] [] []) ''0''"
       and ?vals3.0 = "[(''ofs'', [''0''])]" and ?e3.0 = "Error ''malformed session id''"
       and ?req4.0 = "demoRequest ''POST'' ''/bind'' (demoForm ''c0ffee'' [] [] ''x'') ''0''"
       and ?vals4.0 = "[]" and ?s4.0 = "''c0ffee''" and ?e4.0 = "Error ''invalid syntax''"
       and ?p5.0 = "demoParams ''c0ffee'' 3 ''POST'' ''x''" and ?e5.0 = "Error ''invalid syntax''"
       and ?p6.0 = "demoParams ''c0ffee'' (- 1) ''POST'' ''5''" and ?o6.0 = 5
       and ?m6.0 = "[[(''x'', ''hello'')]]" and ?c6.0 = "demoChannel channelReady"
       and ?msg6.0 = "''gap''" and ?c6'.0 = "demoChannel channelReady" and ?k6.0 = "''c0ffee''"]
  have c1: "\<exists>w'. ServeHTTP demoEnv W (demoRequest ''POST'' ''/bind'' [] ''%'') = Inr w'
          \<and> status (rw w') = Some 400 \<and> body (rw w') = [] \<and> calls w' = []"
    using t [THEN conjunct1] demo_parse_failures(1) W by simp blast
  have c2: "\<exists>w'. ServeHTTP demoEnv W
              (demoRequest ''POST'' ''/bind'' (demoForm ''xyz'' [] [] []) ''0'') = Inr w'
          \<and> status (rw w') = Some 400 \<and> body (rw w') = [] \<and> calls w' = []"
    using t [THEN conjunct2, THEN conjunct1] demo_parse_failures(2,7) W by simp blast
  have c3: "parseBindParams demoEnv (demoRequest ''POST'' ''/bind'' (demoForm ''xyz'' [] [] []) ''0'')
        [(''ofs'', [''0''])] = Inl (Error ''malformed session id'')"
    using t [THEN conjunct2, THEN conjunct2, THEN conjunct1] demo_parse_failures(3) by blast
  have c4: "parseBindParams demoEnv (demoRequest ''POST'' ''/bind'' (demoForm ''c0ffee'' [] [] ''x'') ''0'') []
        = Inl (Error ''invalid syntax'')"
    using t [THEN conjunct2, THEN conjunct2, THEN conjunct2, THEN conjunct1]
      demo_parse_failures(4,5,6) by blast
  have h5: "parseIncomingMaps demoEnv (bvalues (demoParams ''c0ffee'' 3 ''POST'' ''x''))
        = Inl (Error ''invalid syntax'')"
    by simp
  have c5: "status (rw (handleBindRequest demoEnv W (demoParams ''c0ffee'' 3 ''POST'' ''x''))) = Some 400
      \<and> calls (handleBindRequest demoEnv W (demoParams ''c0ffee'' 3 ''POST'' ''x''))
          = [AcknowledgeArrays ''c0ffee'' 3]"
    using t [THEN conjunct2, THEN conjunct2, THEN conjunct2, THEN conjunct2, THEN conjunct1] h5 W
    by (simp add: demoParams_simps nullSessionId_def)
  have h6: "receiveMaps demoEnv (demoChannel channelReady) 5 [[(''x'', ''hello'')]]
        = (Some (Error ''gap''), demoChannel channelReady)"
    by simp
  have c6: "status (rw (handleBindPost demoEnv W (demoParams ''c0ffee'' (- 1) ''POST'' ''5'') ''c0ffee''
                   (demoChannel channelReady))) = Some 500
      \<and> body (rw (handleBindPost demoEnv W (demoParams ''c0ffee'' (- 1) ''POST'' ''5'') ''c0ffee''
                   (demoChannel channelReady))) = []
      \<and> calls (handleBindPost demoEnv W (demoParams ''c0ffee'' (- 1) ''POST'' ''5'') ''c0ffee''
                   (demoChannel channelReady))
        = [ReceiveMaps ''c0ffee'' 5 [[(''x'', ''hello'')]], LogPrintf ''c0ffee: gap\<newline>'']"
    using t [THEN conjunct2, THEN conjunct2, THEN conjunct2, THEN conjunct2, THEN conjunct2] h6 W
    by simp
  from demo_parse_failures(1) c1 c2 c3 c4 h5 c5 h6 c6 show ?thesis
    unfolding W_def by blast
qed

lemma demo_ServeHTTP_bind:
  "ServeHTTP demoEnv (demoWorld m) (demoRequest ''POST'' ''/bind'' (demoForm sd t ci ''3'') b)
     = (if b = ''%'' then Inr ((demoWorld m)\<lparr>rw := WriteHeader newResponseWriter 400\<rparr>)
        else if sd = ''xyz'' then Inr ((demoWorld m)\<lparr>rw := WriteHeader newResponseWriter 400\<rparr>)
        else Inr (handleBindRequest demoEnv (demoWorld m)
               \<lparr>cver = [], sid = sd, qtype = parseQueryType t, domain = [], rid = [], aid = 3,
                chunked = (ci = ''0''), bvalues = [(''ofs'', [b])], method = ''POST''\<rparr>))"
  by (simp add: ServeHTTP_def Let_def demoWorld_simps demoEnv_simps parseBindParams_def
      parseAid_def Atoi_def isDigit_def digitsVal_def digitVal_def)

text \<open>
  C4 as it was stated has no channel operation before the 400 of a map decoding
  failure. A POST to the bind path for the known session \<open>c0ffee\<close> with AID 3 and maps
  that do not decode is answered with 400 after the arrays up to 3 have been
  acknowledged on the channel.
\<close>

theorem decode_failure_after_acknowledge_counterexample:
  "parseIncomingMaps demoEnv [(''ofs'', [''x''])] = Inl (Error ''invalid syntax'')
   \<and> \<not> isl (ServeHTTP demoEnv (demoWorld (demoChannels channelReady))
              (demoRequest ''POST'' ''/bind'' (demoForm ''c0ffee'' [] [] ''3'') ''x''))
   \<and> status (rw (projr (ServeHTTP demoEnv (demoWorld (demoChannels channelReady))
              (demoRequest ''POST'' ''/bind'' (demoForm ''c0ffee'' [] [] ''3'') ''x'')))) = Some 400
   \<and> calls (projr (ServeHTTP demoEnv (demoWorld (demoChannels channelReady))
              (demoRequest ''POST'' ''/bind'' (demoForm ''c0ffee'' [] [] ''3'') ''x'')))
       = [AcknowledgeArrays ''c0ffee'' 3]"
  by (simp add: demo_ServeHTTP_bind handleBindRequest_def handleBindPost_def Let_def
      demoWorld_simps demoEnv_simps nullSessionId_def newResponseWriter_def channelChanged_def)

subsection \<open>Test requests\<close>

lemma jsonRead_plain:
  "list_all jsonPlain p \<Longrightarrow>
     jsonRead InString acc strs (p @ CHR 0x22 # rest)
       = jsonRead Separator [] ((rev acc @ p) # strs) rest"
  by (induction p arbitrary: acc) (auto simp: jsonPlain_def)

lemma jsonStringArray_pair:
  assumes "list_all jsonPlain p"
  shows "jsonStringArray (''[\"'' @ p @ ''\",\"\"]'') = Some [p, []]"
  using jsonRead_plain [OF assms, of "[]" "[]" "'',\"\"]''"]
  by (simp add: jsonStringArray_def)

lemma handleTestRequest_version:
  assumes "parseProtoVersion (Get (Form req) ''VER'') \<noteq> SupportedProcolVersion"
    and "status (rw w) = None" and "body (rw w) = []"
  shows "\<exists>w'. handleTestRequest env w (parseTestParams req) = Inr w'
           \<and> status (rw w') = Some 400 \<and> body (rw w') = ''Unsupported protocol version.''"
  using assms by (simp add: handleTestRequest_def parseTestParams_def WriteString_def)

lemma labelChar_plain: "labelChar c \<Longrightarrow> jsonPlain c"
  by (auto simp: labelChar_def jsonPlain_def)

lemma hostPrefix_plain: "hostPrefix p \<Longrightarrow> list_all jsonPlain p"
  by (simp add: hostPrefix_def list_all_iff labelChar_plain)

lemma getHostPrefix_member:
  assumes "crossDomainConfig info"
  shows "\<exists>p. getHostPrefix info r = Inr p
           \<and> (case info of None \<Rightarrow> p = [] | Some i \<Rightarrow> p \<in> set (prefixes i))
           \<and> list_all jsonPlain p"
proof (cases info)
  case None
  then show ?thesis
    by (simp add: getHostPrefix_def)
next
  case (Some i)
  with assms have ne: "prefixes i \<noteq> []" and hp: "list_all hostPrefix (prefixes i)"
    by (simp_all add: crossDomainConfig_def)
  define p where "p = prefixes i ! (r mod length (prefixes i))"
  from ne have m: "p \<in> set (prefixes i)"
    by (simp add: p_def)
  with hp have "hostPrefix p"
    by (simp add: list_all_iff)
  then have "list_all jsonPlain p"
    by (rule hostPrefix_plain)
  moreover from ne have "getHostPrefix info r = Inr p"
    by (simp add: Some getHostPrefix_def Intn_def p_def)
  ultimately show ?thesis
    using m Some by simp
qed

lemma handleTestRequest_init:
  assumes "parseProtoVersion (Get (Form req) ''VER'') = SupportedProcolVersion"
    and "Get (Form req) ''MODE'' = ''init''"
    and "crossDomainConfig (corsInfo w)"
    and "status (rw w) = None" and "body (rw w) = []"
  shows "\<exists>w' p. handleTestRequest env w (parseTestParams req) = Inr w'
           \<and> status (rw w') = Some 200
           \<and> jsonStringArray (body (rw w')) = Some [p, []]
           \<and> (case corsInfo w of None \<Rightarrow> p = [] | Some i \<Rightarrow> p \<in> set (prefixes i))"
proof -
  from getHostPrefix_member [OF assms(3), of "randDraw env"]
  obtain p where p: "getHostPrefix (corsInfo w) (randDraw env) = Inr p"
    and m: "case corsInfo w of None \<Rightarrow> p = [] | Some i \<Rightarrow> p \<in> set (prefixes i)"
    and plain: "list_all jsonPlain p"
    by blast
  define w' where "w' = w\<lparr>rw := WriteString (WriteHeader (rw w) 200) (''[\"'' @ p @ ''\",\"\"]'')\<rparr>"
  have "handleTestRequest env w (parseTestParams req) = Inr w'"
    using assms(1,2) p by (simp add: handleTestRequest_def parseTestParams_def Let_def w'_def)
  moreover have "status (rw w') = Some 200"
    using assms(4) by (simp add: w'_def WriteString_def)
  moreover have "body (rw w') = ''[\"'' @ p @ ''\",\"\"]''"
    using assms(5) by (simp add: w'_def WriteString_def)
  then have "jsonStringArray (body (rw w')) = Some [p, []]"
    using jsonStringArray_pair [OF plain] by simp
  ultimately show ?thesis
    using m by blast
qed

text \<open>
  C7. On a response nothing has been written to: a test request whose VER does not
  parse to the supported version 8 is answered with status 400 and the text
  \<open>Unsupported protocol version.\<close>; a test request with VER 8 and MODE=init, served
  by a handler with no cross domain information or with one set as the interface
  requires (\<open>crossDomainConfig\<close>), is answered with status 200 and a body that is a
  JSON array of exactly two strings, the second empty and the first, \<open>p\<close>, empty when
  no cross domain information is configured and an element of the prefix list
  otherwise.
\<close>

theorem test_request_answers:
  "(parseProtoVersion (Get (Form req1) ''VER'') \<noteq> SupportedProcolVersion
      \<and> status (rw w1) = None \<and> body (rw w1) = [] \<longrightarrow>
      (\<exists>w'. handleTestRequest env w1 (parseTestParams req1) = Inr w'
           \<and> status (rw w') = Some 400 \<and> body (rw w') = ''Unsupported protocol version.''))
   \<and> (parseProtoVersion (Get (Form req2) ''VER'') = SupportedProcolVersion
      \<and> Get (Form req2) ''MODE'' = ''init''
      \<and> crossDomainConfig (corsInfo w2)
      \<and> status (rw w2) = None \<and> body (rw w2) = [] \<longrightarrow>
      (\<exists>w' p. handleTestRequest env w2 (parseTestParams req2) = Inr w'
           \<and> status (rw w') = Some 200
           \<and> jsonStringArray (body (rw w')) = Some [p, []]
           \<and> (case corsInfo w2 of None \<Rightarrow> p = [] | Some i \<Rightarrow> p \<in> set (prefixes i))))"
  using handleTestRequest_version [of req1 w1 env] handleTestRequest_init [of req2 w2 env]
  by blast

lemma demo_init_body:
  "handleTestRequest demoEnv (demoCorsWorld [''a'', ''b''])
     (parseTestParams (demoRequest ''GET'' ''/test'' [(''VER'', [''8'']), (''MODE'', [''init''])] []))
   = Inr ((demoCorsWorld [''a'', ''b''])\<lparr>rw := newResponseWriter\<lparr>status := Some 200,
            body := ''[\"b\",\"\"]''\<rparr>\<rparr>)"
  by (simp add: handleTestRequest_def parseTestParams_def Get_def SupportedProcolVersion_def
      getHostPrefix_def Intn_def demoEnv_simps WriteHeader_def WriteString_def Write_def
      newResponseWriter_def numeral_2_eq_2 [symmetric])

theorem test_request_answers_witness:
  "parseProtoVersion (Get (Form (demoRequest ''GET'' ''/test'' [(''VER'', [''7''])] [])) ''VER'')
     \<noteq> SupportedProcolVersion
   \<and> (\<exists>w'. handleTestRequest demoEnv (demoCorsWorld [''a'', ''b''])
              (parseTestParams (demoRequest ''GET'' ''/test'' [(''VER'', [''7''])] [])) = Inr w'
         \<and> status (rw w') = Some 400 \<and> body (rw w') = ''Unsupported protocol version.'')
   \<and> parseProtoVersion (Get (Form (demoRequest ''GET'' ''/test''
          [(''VER'', [''8'']), (''MODE'', [''init''])] [])) ''VER'') = SupportedProcolVersion
   \<and> Get (Form (demoRequest ''GET'' ''/test''
          [(''VER'', [''8'']), (''MODE'', [''init''])] [])) ''MODE'' = ''init''
   \<and> crossDomainConfig (corsInfo (demoCorsWorld [''a'', ''b'']))
   \<and> (\<exists>w' p. handleTestRequest demoEnv (demoCorsWorld [''a'', ''b''])
              (parseTestParams (demoRequest ''GET'' ''/test''
                 [(''VER'', [''8'']), (''MODE'', [''init''])] [])) = Inr w'
         \<and> status (rw w') = Some 200 \<and> jsonStringArray (body (rw w')) = Some [p, []]
         \<and> p \<in> set [''a'', ''b''])
   \<and> handleTestRequest demoEnv (demoCorsWorld [''a'', ''b''])
        (parseTestParams (demoRequest ''GET'' ''/test''
           [(''VER'', [''8'']), (''MODE'', [''init''])] []))
      = Inr ((demoCorsWorld [''a'', ''b''])\<lparr>rw := newResponseWriter\<lparr>status := Some 200,
               body := ''[\"b\",\"\"]''\<rparr>\<rparr>)"
proof -
  define R1 where "R1 = demoRequest ''GET'' ''/test'' [(''VER'', [''7''])] []"
  define R2 where "R2 = demoRequest ''GET'' ''/test'' [(''VER'', [''8'']), (''MODE'', [''init''])] []"
  define W where "W = demoCorsWorld [''a'', ''b'']"
  have a: "parseProtoVersion (Get (Form R1) ''VER'') \<noteq> SupportedProcolVersion"
    by (simp add: R1_def Get_def SupportedProcolVersion_def)
  have b: "parseProtoVersion (Get (Form R2) ''VER'') = SupportedProcolVersion"
    and c: "Get (Form R2) ''MODE'' = ''init''"
    by (simp_all add: R2_def Get_def SupportedProcolVersion_def)
  have d: "crossDomainConfig (corsInfo W)"
    by (simp add: W_def crossDomainConfig_def hostPrefix_def labelChar_def)
  have e: "status (rw W) = None" "body (rw W) = []"
    by (simp_all add: W_def newResponseWriter_def)
  note t = test_request_answers
    [where ?req1.0 = R1 and ?w1.0 = W and ?req2.0 = R2 and ?w2.0 = W and env = demoEnv]
  have f: "\<exists>w'. handleTestRequest demoEnv W (parseTestParams R1) = Inr w'
         \<and> status (rw w') = Some 400 \<and> body (rw w') = ''Unsupported protocol version.''"
    using t [THEN conjunct1] a e by blast
  have "\<exists>w' p. handleTestRequest demoEnv W (parseTestParams R2) = Inr w'
           \<and> status (rw w') = Some 200
           \<and> jsonStringArray (body (rw w')) = Some [p, []]
           \<and> (case corsInfo W of None \<Rightarrow> p = [] | Some i \<Rightarrow> p \<in> set (prefixes i))"
    using t [THEN conjunct2] b c d e by blast
  then have h: "\<exists>w' p. handleTestRequest demoEnv W (parseTestParams R2) = Inr w'
         \<and> status (rw w') = Some 200 \<and> jsonStringArray (body (rw w')) = Some [p, []]
         \<and> p \<in> set [''a'', ''b'']"
    by (simp add: W_def)
  from a f b c d h demo_init_body show ?thesis
    unfolding R1_def R2_def W_def by blast
qed

end
